theory Spec2Isabelle
  imports Main "HOL-Library.Sublist"
begin

section \<open>Python values, exceptions and effects\<close>

text \<open>
  Responses of the Databricks REST client are decoded JSON, held by the script as
  ordinary Python values. A dict is an association list; the first binding of a key
  is the one a lookup sees.
\<close>

datatype pyval =
    PNone
  | PBool bool
  | PInt int
  | PStr string
  | PList "pyval list"
  | PDict "(string \<times> pyval) list"

text \<open>
  The exceptions the script can end with. \<open>External\<close> stands for any exception raised
  inside an SDK or REST call; the others are raised by the interpreter or by the script.
\<close>

datatype error =
    SystemExit int
  | NameError string
  | ValueError string
  | KeyError string
  | TypeError
  | External string

text \<open>Python truthiness, as used by \<open>if not instance_pool_id\<close>.\<close>

fun truthy :: "pyval \<Rightarrow> bool" where
  "truthy PNone = False"
| "truthy (PBool b) = b"
| "truthy (PInt i) = (i \<noteq> 0)"
| "truthy (PStr s) = (s \<noteq> [])"
| "truthy (PList xs) = (xs \<noteq> [])"
| "truthy (PDict kvs) = (kvs \<noteq> [])"

text \<open>\<open>v[key]\<close> with a string key: only a dict accepts it, a missing key raises.\<close>

fun subscript :: "pyval \<Rightarrow> string \<Rightarrow> error + pyval" where
  "subscript (PDict kvs) k =
     (case map_of kvs k of None \<Rightarrow> Inl (KeyError k) | Some v \<Rightarrow> Inr v)"
| "subscript PNone k = Inl TypeError"
| "subscript (PBool b) k = Inl TypeError"
| "subscript (PInt i) k = Inl TypeError"
| "subscript (PStr s) k = Inl TypeError"
| "subscript (PList xs) k = Inl TypeError"

text \<open>The items a \<open>for\<close> loop visits: list elements, dict keys, the characters of a string.\<close>

fun py_iter :: "pyval \<Rightarrow> error + pyval list" where
  "py_iter (PList xs) = Inr xs"
| "py_iter (PDict kvs) = Inr (map (\<lambda>kv. PStr (fst kv)) kvs)"
| "py_iter (PStr s) = Inr (map (\<lambda>c. PStr [c]) s)"
| "py_iter PNone = Inl TypeError"
| "py_iter (PBool b) = Inl TypeError"
| "py_iter (PInt i) = Inl TypeError"

section \<open>Compute targets of a workspace\<close>

datatype compute_kind = DatabricksCompute | AmlCompute | RemoteCompute | OtherCompute string

text \<open>
  A value stored under a name in \<open>workspace.compute_targets\<close>: an SDK object of some
  compute class (always truthy), or \<open>None\<close>.
\<close>

datatype target = TNone | TObj compute_kind string

fun target_truthy :: "target \<Rightarrow> bool" where
  "target_truthy TNone = False"
| "target_truthy (TObj k r) = True"

fun target_str :: "target \<Rightarrow> string" where
  "target_str TNone = ''None''"
| "target_str (TObj k r) = r"

fun is_databricks :: "target \<Rightarrow> bool" where
  "is_databricks (TObj DatabricksCompute r) = True"
| "is_databricks t = False"

record workspace =
  ws_name :: string
  subscription_id :: string
  resource_group :: string
  location :: string
  compute_targets :: "(string \<times> target) list"

text \<open>\<open>get_databricks_compute\<close>: \<open>Inr None\<close> is the Python return value \<open>None\<close>.\<close>

definition get_databricks_compute :: "workspace \<Rightarrow> string \<Rightarrow> error + target option" where
  "get_databricks_compute ws compute_name =
     (case map_of (compute_targets ws) compute_name of
        None \<Rightarrow> Inr None
      | Some compute_target \<Rightarrow>
          if target_truthy compute_target \<and> is_databricks compute_target
          then Inr (Some compute_target)
          else Inl (ValueError (''Compute target '' @ target_str compute_target
                                  @ '' is of different type'')))"

section \<open>Instance pools\<close>

text \<open>The loop of \<open>get_instance_pool\<close> over the listed pools.\<close>

fun find_pool :: "pyval list \<Rightarrow> string \<Rightarrow> error + pyval" where
  "find_pool [] pool_name = Inr PNone"
| "find_pool (pool # pools) pool_name =
     (case subscript pool ''instance_pool_name'' of
        Inl e \<Rightarrow> Inl e
      | Inr n \<Rightarrow>
          if n = PStr pool_name then subscript pool ''instance_pool_id''
          else find_pool pools pool_name)"

text \<open>What \<open>get_instance_pool\<close> does with the response of \<open>instance-pools/list\<close>.\<close>

definition pool_of_response :: "(string \<times> pyval) list \<Rightarrow> string \<Rightarrow> error + pyval" where
  "pool_of_response response pool_name =
     (case map_of response ''instance_pools'' of
        None \<Rightarrow> Inr PNone
      | Some listed \<Rightarrow>
          (case py_iter listed of
             Inl e \<Rightarrow> Inl e
           | Inr pools \<Rightarrow> find_pool pools pool_name))"

section \<open>Command line\<close>

text \<open>
  \<open>main\<close> builds an \<open>argparse.ArgumentParser()\<close> with two options (lines 113-124):
  \<open>--databricks_workspace_name\<close>, required, and \<open>--build_id\<close> with default \<open>"local"\<close>.
  Every parser also has \<open>-h\<close> and \<open>--help\<close>, and abbreviations are allowed by default.
  What follows is \<open>parse_args\<close> of the standard library (CPython 3.11) for this parser,
  on the list of command-line arguments; an error or the help flag ends the process
  (\<open>SystemExit\<close> with status 2 or 0).
\<close>

datatype dest = DatabricksWorkspaceName | BuildId

datatype action = AHelp | AStore dest

record args =
  databricks_workspace_name :: string
  build_id :: string

text \<open>The parser's option strings and their actions, in the order they were added.\<close>

definition option_string_actions :: "(string \<times> action) list" where
  "option_string_actions =
     [(''-h'', AHelp), (''--help'', AHelp),
      (''--databricks_workspace_name'', AStore DatabricksWorkspaceName),
      (''--build_id'', AStore BuildId)]"

text \<open>\<open>s.partition('=')\<close>: the part before the first \<open>=\<close>, whether there is one, the part after.\<close>

definition partition_eq :: "string \<Rightarrow> string \<times> bool \<times> string" where
  "partition_eq s =
     (takeWhile (\<lambda>c. c \<noteq> CHR ''='') s, CHR ''='' \<in> set s,
      drop 1 (dropWhile (\<lambda>c. c \<noteq> CHR ''='') s))"

text \<open>
  An argument read as an option: the action (\<open>None\<close> when no option of the parser
  matches), the option string, the separator and the explicit argument.
\<close>

type_synonym option_tuple = "action option \<times> string \<times> string option \<times> string option"

text \<open>
  \<open>_get_option_tuples\<close>: the options an argument may abbreviate. After two dashes, every
  option string that starts with the part before \<open>=\<close>; after one dash, the one-letter
  option with the rest as its explicit argument, or an option string the argument starts.
\<close>

definition get_option_tuples :: "string \<Rightarrow> error + option_tuple list" where
  "get_option_tuples option_string =
     (case option_string of
        c0 # c1 # rest \<Rightarrow>
          if c0 = CHR ''-'' \<and> c1 = CHR ''-'' then
            (case partition_eq option_string of
               (option_prefix, sep, explicit_arg) \<Rightarrow>
                 Inr (map (\<lambda>oa. (Some (snd oa), fst oa,
                                   if sep then Some ''='' else None,
                                   if sep then Some explicit_arg else None))
                        (filter (\<lambda>oa. prefix option_prefix (fst oa)) option_string_actions)))
          else if c0 = CHR ''-'' then
            Inr (concat (map (\<lambda>oa.
                   if fst oa = take 2 option_string
                   then [(Some (snd oa), fst oa, Some [], Some (drop 2 option_string))]
                   else if prefix option_string (fst oa)
                   then [(Some (snd oa), fst oa, None, None)]
                   else []) option_string_actions))
          else Inl (SystemExit 2)
      | _ \<Rightarrow> Inl (SystemExit 2))"

text \<open>
  \<open>_parse_optional\<close>: \<open>Inr None\<close> for an argument that is not an option, an option tuple
  otherwise; an ambiguous abbreviation is an error. The test whether an argument looks
  like a negative number is a regular expression of the library, taken as a parameter.
\<close>

definition parse_optional :: "(string \<Rightarrow> bool) \<Rightarrow> string \<Rightarrow> error + option_tuple option" where
  "parse_optional negative_number arg_string =
     (if arg_string = [] then Inr None
      else if hd arg_string \<noteq> CHR ''-'' then Inr None
      else case map_of option_string_actions arg_string of
        Some action \<Rightarrow> Inr (Some (Some action, arg_string, None, None))
      | None \<Rightarrow>
          if length arg_string = 1 then Inr None
          else (case partition_eq arg_string of
            (option_string, sep, explicit_arg) \<Rightarrow>
              (case (if sep then map_of option_string_actions option_string else None) of
                 Some action \<Rightarrow> Inr (Some (Some action, option_string, Some ''='', Some explicit_arg))
               | None \<Rightarrow>
                   (case get_option_tuples arg_string of
                      Inl e \<Rightarrow> Inl e
                    | Inr [] \<Rightarrow>
                        if negative_number arg_string then Inr None
                        else if CHR '' '' \<in> set arg_string then Inr None
                        else Inr (Some (None, arg_string, None, None))
                    | Inr [option_tuple] \<Rightarrow> Inr (Some option_tuple)
                    | Inr (t1 # t2 # ts) \<Rightarrow> Inl (SystemExit 2)))))"

text \<open>
  The first pass of \<open>_parse_known_args\<close> reads every argument up to the first \<open>--\<close>
  as option or not; this is where an ambiguous abbreviation ends the process.
\<close>

fun find_options :: "(string \<Rightarrow> bool) \<Rightarrow> string list \<Rightarrow> error + unit" where
  "find_options negative_number [] = Inr ()"
| "find_options negative_number (arg_string # arg_strings) =
     (if arg_string = ''--'' then Inr ()
      else case parse_optional negative_number arg_string of
        Inl e \<Rightarrow> Inl e
      | Inr t \<Rightarrow> find_options negative_number arg_strings)"

text \<open>
  The namespace while parsing, with the defaults, and whether some argument was left over
  (\<open>extras\<close>).
\<close>

record namespace =
  ns_databricks_workspace_name :: "string option"
  ns_build_id :: string
  extras :: bool

fun store :: "dest \<Rightarrow> string \<Rightarrow> namespace \<Rightarrow> namespace" where
  "store DatabricksWorkspaceName v ns = ns\<lparr>ns_databricks_workspace_name := Some v\<rparr>"
| "store BuildId v ns = ns\<lparr>ns_build_id := v\<rparr>"

text \<open>
  \<open>-h\<close> followed by more letters in the same argument (\<open>-hx\<close>): further one-letter
  options are read from the tail. \<open>True\<close> when the help action is taken in the end,
  \<open>False\<close> when the tail is refused (\<open>ignored explicit argument\<close>).
\<close>

fun joined_flags :: "string \<Rightarrow> bool" where
  "joined_flags [] = True"
| "joined_flags (c # cs) =
     (if c = CHR ''-'' then False
      else if c = CHR ''h'' then
        (case cs of
           [] \<Rightarrow> True
         | d # ds \<Rightarrow> if d = CHR ''='' then False else joined_flags cs)
      else True)"

text \<open>
  The main loop of \<open>_parse_known_args\<close> with \<open>consume_optional\<close>: arguments that are no
  options, unknown options and everything from \<open>--\<close> on are left over; the help action
  prints the usage and exits; a storing option takes its explicit argument or else the
  next argument, which must not be an option.
\<close>

fun consume :: "(string \<Rightarrow> bool) \<Rightarrow> string list \<Rightarrow> namespace \<Rightarrow> error + namespace" where
  "consume negative_number [] ns = Inr ns"
| "consume negative_number (arg_string # arg_strings) ns =
     (if arg_string = ''--'' then Inr (ns\<lparr>extras := True\<rparr>)
      else case parse_optional negative_number arg_string of
        Inl e \<Rightarrow> Inl e
      | Inr None \<Rightarrow> consume negative_number arg_strings (ns\<lparr>extras := True\<rparr>)
      | Inr (Some (None, option_string, sep, explicit_arg)) \<Rightarrow>
          consume negative_number arg_strings (ns\<lparr>extras := True\<rparr>)
      | Inr (Some (Some AHelp, option_string, sep, None)) \<Rightarrow> Inl (SystemExit 0)
      | Inr (Some (Some AHelp, option_string, sep, Some explicit_arg)) \<Rightarrow>
          if take 1 (drop 1 option_string) \<noteq> ''-'' \<and> explicit_arg \<noteq> [] \<and> sep = Some []
             \<and> joined_flags explicit_arg
          then Inl (SystemExit 0) else Inl (SystemExit 2)
      | Inr (Some (Some (AStore d), option_string, sep, Some explicit_arg)) \<Rightarrow>
          consume negative_number arg_strings (store d explicit_arg ns)
      | Inr (Some (Some (AStore d), option_string, sep, None)) \<Rightarrow>
          (case arg_strings of
             [] \<Rightarrow> Inl (SystemExit 2)
           | v # rest \<Rightarrow>
               if v \<noteq> ''--'' \<and> parse_optional negative_number v = Inr None
               then consume negative_number rest (store d v ns)
               else Inl (SystemExit 2)))"

text \<open>
  \<open>parser.parse_args()\<close>: after the loop, a required option that was not given is an
  error, and so is any argument left over.
\<close>

definition parse_args :: "(string \<Rightarrow> bool) \<Rightarrow> string list \<Rightarrow> error + args" where
  "parse_args negative_number argv =
     (case find_options negative_number argv of
        Inl e \<Rightarrow> Inl e
      | Inr u \<Rightarrow>
          (case consume negative_number argv
                  \<lparr>ns_databricks_workspace_name = None, ns_build_id = ''local'',
                   extras = False\<rparr> of
             Inl e \<Rightarrow> Inl e
           | Inr ns \<Rightarrow>
               (case ns_databricks_workspace_name ns of
                  None \<Rightarrow> Inl (SystemExit 2)
                | Some w \<Rightarrow>
                    if extras ns then Inl (SystemExit 2)
                    else Inr \<lparr>databricks_workspace_name = w, build_id = ns_build_id ns\<rparr>)))"

section \<open>External calls and their trace\<close>

text \<open>
  Every call that leaves the script is recorded as an event, in the order it is made.
  \<open>ECall\<close> marks the entry into one of the script's own functions.
\<close>

datatype event =
    ECall string
  | EParseArgs
  | ERunGetContext
  | EGetDefaultKeyvault
  | EGetSecret string
  | EServicePrincipalAuthentication
  | EWorkspace
  | EWorkspaceFromConfig
  | EPrint string
  | EAuthenticationContext string
  | EClientCreate string
  | EAuthAzureAD string
  | EPost string pyval
  | EGet string
  | EAttachConfiguration
  | EComputeAttach string
  | EWaitForCompletion
  | EDatastore string
  | EDataReference
  | EPipelineData string
  | EOpenRead string
  | EDatabricksStep pyval string target
  | EPipeline
  | EValidate
  | EPublish string

text \<open>
  The outside world: what each call answers, an exception (\<open>Inl\<close>) or a value. Calls made
  from one place in the script have one field; the two listings of the instance pools
  are told apart by their index, the secrets by their name. \<open>r_get_context\<close> answers with
  the workspace of the run's experiment (\<open>aml_run.experiment.workspace\<close>), the only part
  of the \<open>Run\<close> object the script reads; a \<open>Run\<close> object is always truthy.
  \<open>r_open_read\<close> is opening and reading the notebook file. The last three fields are
  the library functions \<open>str.encode('utf-8')\<close>, \<open>base64.b64encode\<close> followed by
  \<open>decode('ascii')\<close>, and \<open>hashlib.sha1(...).hexdigest()\<close>, over bytes as numbers, and the test
  of \<open>argparse\<close> whether an argument looks like a negative number.
\<close>

record env =
  r_get_context :: "error + workspace"
  r_run_keyvault :: "error + unit"
  r_run_secret :: "string \<Rightarrow> error + string"
  r_sp_auth :: "error + unit"
  r_workspace :: "error + workspace"
  r_from_config :: "error + workspace"
  r_keyvault :: "error + unit"
  r_secret :: "string \<Rightarrow> error + string"
  r_auth_context :: "error + unit"
  r_client_create :: "error + unit"
  r_auth_azuread :: "error + unit"
  r_token_create :: "error + (string \<times> pyval) list"
  r_attach_configuration :: "error + unit"
  r_attach :: "error + target"
  r_wait :: "error + unit"
  r_pools_list :: "nat \<Rightarrow> error + (string \<times> pyval) list"
  r_pools_create :: "error + unit"
  r_datastore :: "string \<Rightarrow> error + unit"
  r_data_reference :: "error + unit"
  r_pipeline_data :: "error + unit"
  r_open_read :: "string \<Rightarrow> error + string"
  r_mkdirs :: "error + unit"
  r_import :: "error + unit"
  r_step :: "error + unit"
  r_pipeline :: "error + unit"
  r_validate :: "error + unit"
  r_publish :: "error + string \<times> string"
  utf8_encode :: "string \<Rightarrow> nat list"
  b64encode :: "nat list \<Rightarrow> string"
  sha1_hexdigest :: "nat list \<Rightarrow> string"
  negative_number :: "string \<Rightarrow> bool"

text \<open>
  A computation: the calls it made, each with the exception it raised if it raised one,
  and how the computation ended.
\<close>

type_synonym trace = "(event \<times> error option) list"

type_synonym 'a io = "trace \<times> (error + 'a)"

fun raised :: "error + 'a \<Rightarrow> error option" where
  "raised (Inl e) = Some e"
| "raised (Inr x) = None"

definition ret :: "'a \<Rightarrow> 'a io" where
  "ret x = ([], Inr x)"

text \<open>A step of the script itself, which may raise but calls nothing.\<close>

definition lift :: "error + 'a \<Rightarrow> 'a io" where
  "lift r = ([], r)"

text \<open>A call that answers \<open>r\<close>.\<close>

definition ext :: "event \<Rightarrow> error + 'a \<Rightarrow> 'a io" where
  "ext ev r = ([(ev, raised r)], r)"

text \<open>A call inside \<open>try: ... except: x = None\<close>: an exception becomes the value \<open>None\<close>.\<close>

definition ext_try :: "event \<Rightarrow> error + 'a \<Rightarrow> 'a option io" where
  "ext_try ev r = ([(ev, raised r)], Inr (case r of Inl e \<Rightarrow> None | Inr x \<Rightarrow> Some x))"

text \<open>Sequencing: an exception ends the computation, the trace so far is kept.\<close>

definition bnd :: "'a io \<Rightarrow> ('a \<Rightarrow> 'b io) \<Rightarrow> 'b io" where
  "bnd m f = (case snd m of
                Inl e \<Rightarrow> (fst m, Inl e)
              | Inr x \<Rightarrow> (fst m @ fst (f x), snd (f x)))"

text \<open>The calls of a computation, in order.\<close>

definition calls :: "'a io \<Rightarrow> event list" where
  "calls m = map fst (fst m)"

section \<open>The script's functions\<close>

definition DATABRICKS_RUNTIME_VERSION :: string where
  "DATABRICKS_RUNTIME_VERSION = ''6.2.x-scala2.11''"

text \<open>
  The names bound at module level: the imports (lines 1-13), the constant (line 16) and
  the five functions. A name that is neither local to a function nor bound here (nor a
  builtin) raises \<open>NameError\<close> when it is read.
\<close>

definition module_globals :: "string list" where
  "module_globals =
     [''argparse'', ''base64'', ''hashlib'', ''databricks_client'', ''adal'',
      ''Workspace'', ''Run'', ''Pipeline'', ''PipelineData'', ''DatabricksStep'',
      ''DatabricksCompute'', ''ComputeTarget'', ''Datastore'', ''DataReference'',
      ''StorageManagementClient'', ''ServicePrincipalAuthentication'',
      ''DATABRICKS_RUNTIME_VERSION'', ''get_databricks_compute'',
      ''create_databricks_compute'', ''upload_notebook'', ''get_instance_pool'', ''main'']"

definition load_name :: "string list \<Rightarrow> string \<Rightarrow> error + unit" where
  "load_name locals name =
     (if name \<in> set locals \<or> name \<in> set module_globals then Inr ()
      else Inl (NameError name))"

text \<open>
  \<open>create_databricks_compute\<close> (lines 32-48). Its local names are its three parameters;
  the arguments of \<open>attach_configuration\<close> are evaluated before the call, and the second
  of them reads the name \<open>args\<close>.
\<close>

definition create_databricks_compute :: "env \<Rightarrow> workspace \<Rightarrow> string \<Rightarrow> pyval \<Rightarrow> target io" where
  "create_databricks_compute env ws compute_name access_token =
     bnd (ext (ECall ''create_databricks_compute'') (Inr ())) (\<lambda>_.
     bnd (lift (load_name [''workspace'', ''compute_name'', ''access_token''] ''args'')) (\<lambda>_.
     bnd (ext EAttachConfiguration (r_attach_configuration env)) (\<lambda>compute_config.
     bnd (ext (EComputeAttach compute_name) (r_attach env)) (\<lambda>compute_target.
     bnd (ext EWaitForCompletion (r_wait env)) (\<lambda>_.
     ret compute_target)))))"

text \<open>\<open>upload_notebook\<close> (lines 51-88).\<close>

definition upload_notebook :: "env \<Rightarrow> string \<Rightarrow> string \<Rightarrow> string \<Rightarrow> string io" where
  "upload_notebook env notebook_folder notebook_dir notebook_name =
     bnd (ext (ECall ''upload_notebook'') (Inr ())) (\<lambda>_.
     bnd (ext (EOpenRead (notebook_dir @ ''/'' @ notebook_name @ ''.py''))
              (r_open_read env (notebook_dir @ ''/'' @ notebook_name @ ''.py''))) (\<lambda>file_content.
       let notebook_content = utf8_encode env file_content;
           content_b64 = b64encode env notebook_content;
           notebook_checksum = sha1_hexdigest env notebook_content;
           notebook_subfolder = notebook_folder @ ''/'' @ notebook_checksum;
           notebook_path = notebook_subfolder @ ''/'' @ notebook_name
       in
     bnd (ext (EPost ''workspace/mkdirs'' (PDict [(''path'', PStr notebook_subfolder)]))
              (r_mkdirs env)) (\<lambda>_.
     bnd (ext (EPost ''workspace/import''
                 (PDict [(''content'', PStr content_b64),
                         (''path'', PStr notebook_path),
                         (''overwrite'', PBool True),
                         (''language'', PStr ''PYTHON''),
                         (''format'', PStr ''SOURCE'')]))
              (r_import env)) (\<lambda>_.
     ret notebook_path))))"

text \<open>
  \<open>get_instance_pool\<close> (lines 91-106); \<open>i\<close> says which listing of the run this is.
\<close>

definition get_instance_pool :: "env \<Rightarrow> nat \<Rightarrow> string \<Rightarrow> pyval io" where
  "get_instance_pool env i pool_name =
     bnd (ext (ECall ''get_instance_pool'') (Inr ())) (\<lambda>_.
     bnd (ext (EGet ''instance-pools/list'') (r_pools_list env i)) (\<lambda>response.
     lift (pool_of_response response pool_name)))"

section \<open>main\<close>

text \<open>
  \<open>main\<close> (lines 109-258) is one linear procedure. It is written here in the order of the
  source, cut into its commented parts.

  Lines 127-148: the workspace. The \<open>try\<close> with a bare \<open>except\<close> turns any exception of
  \<open>Run.get_context\<close> into \<open>aml_run = None\<close>.
\<close>

definition main_workspace :: "env \<Rightarrow> workspace io" where
  "main_workspace env =
     bnd (ext_try ERunGetContext (r_get_context env)) (\<lambda>aml_run.
     bnd (case aml_run of
            Some run_ws \<Rightarrow>
              bnd (ext EGetDefaultKeyvault (r_run_keyvault env)) (\<lambda>vault.
              bnd (ext (EGetSecret ''TenantId'') (r_run_secret env ''TenantId'')) (\<lambda>tenant_id.
              bnd (ext (EGetSecret ''ClientId'') (r_run_secret env ''ClientId'')) (\<lambda>client_id.
              bnd (ext (EGetSecret ''ClientSecret'') (r_run_secret env ''ClientSecret'')) (\<lambda>client_secret.
              bnd (ext EServicePrincipalAuthentication (r_sp_auth env)) (\<lambda>auth.
              ext EWorkspace (r_workspace env))))))
          | None \<Rightarrow> ext EWorkspaceFromConfig (r_from_config env)) (\<lambda>aml_workspace.
     bnd (ext (EPrint (ws_name aml_workspace)) (Inr ())) (\<lambda>_.
     ret aml_workspace)))"

text \<open>Lines 150-169: Databricks credentials and the REST client.\<close>

definition main_client :: "env \<Rightarrow> args \<Rightarrow> workspace \<Rightarrow> unit io" where
  "main_client env args aml_workspace =
     (let dbricks_region = location aml_workspace;
          dbricks_api = ''https://'' @ dbricks_region @ ''.azuredatabricks.net/api/2.0'';
          authority_host_uri = ''https://login.microsoftonline.com''
      in
     bnd (ext EGetDefaultKeyvault (r_keyvault env)) (\<lambda>vault.
     bnd (ext (EGetSecret ''TenantId'') (r_secret env ''TenantId'')) (\<lambda>tenant.
     bnd (ext (EAuthenticationContext (authority_host_uri @ ''/'' @ tenant))
              (r_auth_context env)) (\<lambda>context.
     bnd (ext (EGetSecret ''ClientId'') (r_secret env ''ClientId'')) (\<lambda>client_id.
     bnd (ext (EGetSecret ''ClientSecret'') (r_secret env ''ClientSecret'')) (\<lambda>client_secret.
     bnd (ext (EClientCreate dbricks_api) (r_client_create env)) (\<lambda>dbricks_client.
     ext (EAuthAzureAD (databricks_workspace_name args)) (r_auth_azuread env))))))))"

text \<open>Lines 171-191: the compute target named \<open>databricks\<close>.\<close>

definition main_compute :: "env \<Rightarrow> args \<Rightarrow> workspace \<Rightarrow> target io" where
  "main_compute env args aml_workspace =
     (let dbricks_compute_name = ''databricks'' in
     bnd (ext (ECall ''get_databricks_compute'')
              (get_databricks_compute aml_workspace dbricks_compute_name)) (\<lambda>found.
     bnd (case found of
            Some dbricks_compute \<Rightarrow> ret dbricks_compute
          | None \<Rightarrow>
              bnd (ext (EPost ''token/create''
                          (PDict [(''comment'',
                             PStr (''Azure ML Token generated by Build '' @ build_id args))]))
                       (r_token_create env)) (\<lambda>response.
              bnd (lift (subscript (PDict response) ''token_value'')) (\<lambda>pat_token.
              create_databricks_compute env aml_workspace dbricks_compute_name pat_token))) (\<lambda>dbricks_compute.
     bnd (ext (EPrint ''dbricks_compute:'') (Inr ())) (\<lambda>_.
     bnd (ext (EPrint (target_str dbricks_compute)) (Inr ())) (\<lambda>_.
     ret dbricks_compute)))))"

text \<open>Lines 193-208: the instance pool named \<open>azureml_training\<close>.\<close>

definition main_pool :: "env \<Rightarrow> pyval io" where
  "main_pool env =
     (let pool_name = ''azureml_training'' in
     bnd (get_instance_pool env 0 pool_name) (\<lambda>instance_pool_id.
     if \<not> truthy instance_pool_id then
       bnd (ext (EPost ''instance-pools/create''
                   (PDict [(''instance_pool_name'', PStr pool_name),
                           (''node_type_id'', PStr ''Standard_D3_v2''),
                           (''idle_instance_autotermination_minutes'', PInt 10),
                           (''preloaded_spark_versions'',
                              PList [PStr DATABRICKS_RUNTIME_VERSION])]))
                (r_pools_create env)) (\<lambda>_.
       get_instance_pool env 1 pool_name)
     else ret instance_pool_id))"

text \<open>Lines 247-258: the pipeline is built, validated and published.\<close>

definition main_publish :: "env \<Rightarrow> args \<Rightarrow> unit io" where
  "main_publish env args =
     bnd (ext EPipeline (r_pipeline env)) (\<lambda>ml_pipeline.
     bnd (ext EValidate (r_validate env)) (\<lambda>_.
     bnd (ext (EPublish (build_id args)) (r_publish env)) (\<lambda>published_pipeline.
     bnd (ext (EPrint (''Published pipeline: '' @ fst published_pipeline)) (Inr ())) (\<lambda>_.
     ext (EPrint (''for build '' @ snd published_pipeline)) (Inr ())))))"

text \<open>The whole of \<open>main\<close>; lines 210-241 are the datastores, the upload and the step.\<close>

definition main :: "env \<Rightarrow> string list \<Rightarrow> unit io" where
  "main env argv =
     bnd (ext EParseArgs (parse_args (negative_number env) argv)) (\<lambda>args.
     bnd (main_workspace env) (\<lambda>aml_workspace.
     bnd (main_client env args aml_workspace) (\<lambda>_.
     bnd (main_compute env args aml_workspace) (\<lambda>dbricks_compute.
     bnd (main_pool env) (\<lambda>instance_pool_id.
       let notebook_folder = ''/Shared/AzureMLDeployed'' in
     bnd (ext (EDatastore ''workspaceblobstore'') (r_datastore env ''workspaceblobstore'')) (\<lambda>workspace_datastore.
     bnd (ext (EDatastore ''trainingdata'') (r_datastore env ''trainingdata'')) (\<lambda>training_datastore.
     bnd (ext EDataReference (r_data_reference env)) (\<lambda>training_data_input.
     bnd (ext (EPipelineData ''feature_engineered'') (r_pipeline_data env)) (\<lambda>feature_eng_output.
     bnd (upload_notebook env notebook_folder ''code/prepare'' ''feature_engineering'') (\<lambda>notebook_path.
     bnd (ext (EDatabricksStep instance_pool_id notebook_path dbricks_compute)
              (r_step env)) (\<lambda>training_dataprep_step.
     main_publish env args)))))))))))"

section \<open>Sample inputs\<close>

text \<open>A workspace with a Databricks target and a target of another class.\<close>

definition ws0 :: workspace where
  "ws0 = \<lparr>ws_name = ''aml'', subscription_id = ''sub'', resource_group = ''rg'',
          location = ''westeurope'',
          compute_targets = [(''databricks'', TObj DatabricksCompute ''db''),
                             (''cpu'', TObj AmlCompute ''cpu-cluster'')]\<rparr>"

text \<open>A workspace without any compute target.\<close>

definition ws_bare :: workspace where
  "ws_bare = \<lparr>ws_name = ''aml'', subscription_id = ''sub'', resource_group = ''rg'',
              location = ''westeurope'', compute_targets = []\<rparr>"

text \<open>A listing with one pool, the one \<open>main\<close> looks for.\<close>

definition pools_one :: "(string \<times> pyval) list" where
  "pools_one =
     [(''instance_pools'',
       PList [PDict [(''instance_pool_name'', PStr ''azureml_training''),
                     (''instance_pool_id'', PStr ''pool-1'')]])]"

text \<open>
  A stand-in for the negative-number test, the regular expression
  \<open>^-\d+$|^-\d*\.\d+$\<close> on ASCII digits: a dash followed by digits, with at most one dot
  before the last digits; \<open>$\<close> also matches before a final newline.
\<close>

definition sample_negative_number :: "string \<Rightarrow> bool" where
  "sample_negative_number s =
     (case (if s \<noteq> [] \<and> last s = CHR 0x0A then butlast s else s) of
        [] \<Rightarrow> False
      | c # cs \<Rightarrow>
          c = CHR ''-'' \<and> cs \<noteq> [] \<and>
          (let r = dropWhile (\<lambda>d. d \<in> set ''0123456789'') cs
           in r = [] \<or>
              (take 1 r = ''.'' \<and> drop 1 r \<noteq> [] \<and>
               list_all (\<lambda>d. d \<in> set ''0123456789'') (drop 1 r))))"

text \<open>
  An environment in which every call succeeds: the script runs inside an Azure ML run,
  the compute target and the pool exist. The library functions are stand-ins.
\<close>

definition env_ok :: env where
  "env_ok =
     \<lparr>r_get_context = Inr ws0,
      r_run_keyvault = Inr (),
      r_run_secret = (\<lambda>n. Inr (''secret-'' @ n)),
      r_sp_auth = Inr (),
      r_workspace = Inr ws0,
      r_from_config = Inr ws0,
      r_keyvault = Inr (),
      r_secret = (\<lambda>n. Inr (''secret-'' @ n)),
      r_auth_context = Inr (),
      r_client_create = Inr (),
      r_auth_azuread = Inr (),
      r_token_create = Inr [(''token_value'', PStr ''dapi123'')],
      r_attach_configuration = Inr (),
      r_attach = Inr (TObj DatabricksCompute ''db''),
      r_wait = Inr (),
      r_pools_list = (\<lambda>i. Inr pools_one),
      r_pools_create = Inr (),
      r_datastore = (\<lambda>n. Inr ()),
      r_data_reference = Inr (),
      r_pipeline_data = Inr (),
      r_open_read = (\<lambda>f. Inr ''x = 1''),
      r_mkdirs = Inr (),
      r_import = Inr (),
      r_step = Inr (),
      r_pipeline = Inr (),
      r_validate = Inr (),
      r_publish = Inr (''Feature Engineering'', ''42''),
      utf8_encode = map of_char,
      b64encode = (\<lambda>bs. ''eCA9IDE=''),
      sha1_hexdigest = (\<lambda>bs. ''5f1d''),
      negative_number = sample_negative_number\<rparr>"

text \<open>The same, run outside Azure ML: \<open>Run.get_context\<close> raises.\<close>

definition env_offline :: env where
  "env_offline = env_ok\<lparr>r_get_context := Inl (External ''RunEnvironmentException'')\<rparr>"

text \<open>The same, but no pool is ever listed, not even after the creation call.\<close>

definition env_no_pool :: env where
  "env_no_pool = env_ok\<lparr>r_pools_list := (\<lambda>i. Inr [])\<rparr>"

text \<open>The same, but the pool is listed only from the second listing on.\<close>

definition env_new_pool :: env where
  "env_new_pool = env_ok\<lparr>r_pools_list := (\<lambda>i. if i = 0 then Inr [] else Inr pools_one)\<rparr>"

text \<open>The same, in a workspace that has no compute target yet.\<close>

definition env_no_compute :: env where
  "env_no_compute = env_ok\<lparr>r_workspace := Inr ws_bare\<rparr>"

definition argv0 :: "string list" where
  "argv0 = [''--databricks_workspace_name'', ''dbx'']"


section \<open>Conditions used in the statements\<close>




text \<open>
  The six operations a run goes through, by number: 1 authenticate (key vault, secrets,
  Azure AD and the REST client), 2 resolve or attach the compute target, 3 resolve or
  create the instance pool, 4 upload the notebook, 5 define the pipeline step, 6 build
  and publish the pipeline. Parsing, printing, fetching the workspace and the datastore
  objects are none of the six and have number 0.
\<close>

fun phase :: "event \<Rightarrow> nat" where
  "phase (ECall f) =
     (if f = ''get_databricks_compute'' \<or> f = ''create_databricks_compute'' then 2
      else if f = ''get_instance_pool'' then 3
      else if f = ''upload_notebook'' then 4 else 0)"
| "phase EParseArgs = 0"
| "phase ERunGetContext = 0"
| "phase EGetDefaultKeyvault = 1"
| "phase (EGetSecret n) = 1"
| "phase EServicePrincipalAuthentication = 1"
| "phase EWorkspace = 0"
| "phase EWorkspaceFromConfig = 0"
| "phase (EPrint s) = 0"
| "phase (EAuthenticationContext u) = 1"
| "phase (EClientCreate u) = 1"
| "phase (EAuthAzureAD w) = 1"
| "phase (EPost ep j) =
     (if ep = ''token/create'' then 2
      else if ep = ''instance-pools/create'' then 3
      else if ep = ''workspace/mkdirs'' \<or> ep = ''workspace/import'' then 4 else 0)"
| "phase (EGet ep) = (if ep = ''instance-pools/list'' then 3 else 0)"
| "phase EAttachConfiguration = 2"
| "phase (EComputeAttach n) = 2"
| "phase EWaitForCompletion = 2"
| "phase (EDatastore n) = 0"
| "phase EDataReference = 0"
| "phase (EPipelineData n) = 0"
| "phase (EOpenRead f) = 4"
| "phase (EDatabricksStep i p t) = 5"
| "phase EPipeline = 6"
| "phase EValidate = 6"
| "phase (EPublish v) = 6"

definition phases :: "'a io \<Rightarrow> nat list" where
  "phases m = filter (\<lambda>k. k \<noteq> 0) (map phase (calls m))"

text \<open>Kinds of calls, and how often a computation makes a call of a kind.\<close>

fun is_post :: "string \<Rightarrow> event \<Rightarrow> bool" where
  "is_post ep (EPost ep' j) = (ep' = ep)"
| "is_post ep ev = False"

fun is_get :: "string \<Rightarrow> event \<Rightarrow> bool" where
  "is_get ep (EGet ep') = (ep' = ep)"
| "is_get ep ev = False"

fun is_attach :: "event \<Rightarrow> bool" where
  "is_attach (EComputeAttach n) = True"
| "is_attach ev = False"

fun is_publish :: "event \<Rightarrow> bool" where
  "is_publish (EPublish v) = True"
| "is_publish ev = False"

definition count_calls :: "(event \<Rightarrow> bool) \<Rightarrow> 'a io \<Rightarrow> nat" where
  "count_calls P m = length (filter P (calls m))"

text \<open>
  Every exception a call raised, the call to \<open>Run.get_context\<close> apart, ended the
  computation: the call is the last one made and its exception is the outcome.
\<close>

definition propagates :: "'a io \<Rightarrow> bool" where
  "propagates m =
     (\<forall>ev e. (ev, Some e) \<in> set (fst m) \<longrightarrow> ev \<noteq> ERunGetContext \<longrightarrow>
        snd m = Inl e \<and> last (fst m) = (ev, Some e))"

text \<open>An environment in which publishing the pipeline fails.\<close>

definition env_publish_fails :: env where
  "env_publish_fails = env_ok\<lparr>r_publish := Inl (External ''ServiceException'')\<rparr>"


fun option_of :: "dest \<Rightarrow> string" where
  "option_of DatabricksWorkspaceName = ''--databricks_workspace_name''"
| "option_of BuildId = ''--build_id''"

section \<open>Verified properties\<close>

subsection \<open>The compute target lookup\<close>

text \<open>
  C3. For every workspace and compute name, \<open>get_databricks_compute\<close> returns \<open>None\<close> when
  the name is not among the workspace's compute targets, returns the target when it is a
  \<open>DatabricksCompute\<close>, and raises \<open>ValueError\<close> when the target stored under the name is
  of another type.
\<close>

theorem get_databricks_compute_cases:
  "(map_of (compute_targets ws) n = None \<longrightarrow> get_databricks_compute ws n = Inr None) \<and>
   (\<forall>r. map_of (compute_targets ws) n = Some (TObj DatabricksCompute r) \<longrightarrow>
        get_databricks_compute ws n = Inr (Some (TObj DatabricksCompute r))) \<and>
   (\<forall>t. map_of (compute_targets ws) n = Some t \<longrightarrow> \<not> is_databricks t \<longrightarrow>
        get_databricks_compute ws n =
          Inl (ValueError (''Compute target '' @ target_str t @ '' is of different type'')))"
  by (simp add: get_databricks_compute_def)

theorem get_databricks_compute_cases_witness:
  "map_of (compute_targets ws0) ''gpu'' = None \<and>
   get_databricks_compute ws0 ''gpu'' = Inr None \<and>
   map_of (compute_targets ws0) ''databricks'' = Some (TObj DatabricksCompute ''db'') \<and>
   get_databricks_compute ws0 ''databricks'' = Inr (Some (TObj DatabricksCompute ''db'')) \<and>
   map_of (compute_targets ws0) ''cpu'' = Some (TObj AmlCompute ''cpu-cluster'') \<and>
   \<not> is_databricks (TObj AmlCompute ''cpu-cluster'') \<and>
   get_databricks_compute ws0 ''cpu'' =
     Inl (ValueError ''Compute target cpu-cluster is of different type'')"
  using get_databricks_compute_cases [of ws0 "''gpu''"]
        get_databricks_compute_cases [of ws0 "''databricks''"]
        get_databricks_compute_cases [of ws0 "''cpu''"]
  by (simp add: ws0_def)

subsection \<open>Sequencing\<close>

lemmas io_defs = bnd_def ext_def ext_try_def lift_def ret_def calls_def

lemmas env_defs = env_ok_def env_offline_def env_no_pool_def env_new_pool_def env_no_compute_def
  ws0_def ws_bare_def pools_one_def argv0_def

lemma snd_bnd_Inl: "snd m = Inl e \<Longrightarrow> snd (bnd m f) = Inl e"
  by (simp add: bnd_def)

lemma snd_bnd_Inr: "snd m = Inr x \<Longrightarrow> snd (bnd m f) = snd (f x)"
  by (simp add: bnd_def)

lemma fst_bnd_Inl: "snd m = Inl e \<Longrightarrow> fst (bnd m f) = fst m"
  by (simp add: bnd_def)

lemma fst_bnd_Inr: "snd m = Inr x \<Longrightarrow> fst (bnd m f) = fst m @ fst (f x)"
  by (simp add: bnd_def)

lemma bnd_fails: "(\<And>x. \<exists>e. snd (f x) = Inl e) \<Longrightarrow> \<exists>e. snd (bnd m f) = Inl e"
  by (cases "snd m") (simp_all add: bnd_def)

lemma bnd_fails_left: "\<exists>e. snd m = Inl e \<Longrightarrow> \<exists>e. snd (bnd m f) = Inl e"
  by (auto simp: bnd_def)

subsection \<open>Attaching the compute target\<close>

lemma create_raises:
  "create_databricks_compute env ws n tok =
     ([(ECall ''create_databricks_compute'', None)], Inl (NameError ''args''))"
  by (simp add: create_databricks_compute_def bnd_def ext_def lift_def load_name_def
      module_globals_def)

lemma main_compute_missing:
  assumes "map_of (compute_targets ws) ''databricks'' = None"
  shows "\<exists>e. snd (main_compute env a ws) = Inl e"
proof -
  have g: "get_databricks_compute ws ''databricks'' = Inr None"
    using assms by (simp add: get_databricks_compute_def)
  show ?thesis
    unfolding main_compute_def Let_def
    apply (subst snd_bnd_Inr [where x = None])
     apply (simp add: ext_def g)
    apply (rule bnd_fails_left)
    apply simp
    apply (rule bnd_fails)
    apply (rule bnd_fails)
    apply (simp add: create_raises)
    done
qed

text \<open>
  C2. \<open>create_databricks_compute\<close> always raises \<open>NameError\<close> for the name \<open>args\<close>, which
  is bound in \<open>main\<close> only. So every run of \<open>main\<close> whose workspace has no compute target
  named \<open>databricks\<close> ends with an exception; when the token is issued, the exception is
  this \<open>NameError\<close>.
\<close>

theorem create_branch_never_completes:
  "snd (create_databricks_compute env ws n tok) = Inl (NameError ''args'') \<and>
   (snd (main_workspace env) = Inr ws \<longrightarrow> map_of (compute_targets ws) ''databricks'' = None \<longrightarrow>
      (\<exists>e. snd (main env argv) = Inl e)) \<and>
   (map_of (compute_targets ws) ''databricks'' = None \<longrightarrow>
      r_token_create env = Inr response \<longrightarrow> map_of response ''token_value'' = Some tok \<longrightarrow>
      snd (main_compute env a ws) = Inl (NameError ''args''))"
proof (intro conjI impI)
  show "snd (create_databricks_compute env ws n tok) = Inl (NameError ''args'')"
    by (simp add: create_raises)
next
  assume w: "snd (main_workspace env) = Inr ws"
    and m: "map_of (compute_targets ws) ''databricks'' = None"
  have c: "\<And>a. \<exists>e. snd (main_compute env a ws) = Inl e"
    using m by (rule main_compute_missing)
  show "\<exists>e. snd (main env argv) = Inl e"
    unfolding main_def
    apply (rule bnd_fails)
    apply (subst snd_bnd_Inr [OF w])
    apply (rule bnd_fails)
    apply (rule bnd_fails_left)
    apply (rule c)
    done
next
  assume "map_of (compute_targets ws) ''databricks'' = None"
    "r_token_create env = Inr response" "map_of response ''token_value'' = Some tok"
  then show "snd (main_compute env a ws) = Inl (NameError ''args'')"
    by (simp add: main_compute_def get_databricks_compute_def create_raises io_defs)
qed

theorem create_branch_never_completes_witness:
  "snd (main_workspace env_no_compute) = Inr ws_bare \<and>
   map_of (compute_targets ws_bare) ''databricks'' = None \<and>
   r_token_create env_no_compute = Inr [(''token_value'', PStr ''dapi123'')] \<and>
   map_of [(''token_value'', PStr ''dapi123'')] ''token_value'' = Some (PStr ''dapi123'') \<and>
   (\<exists>e. snd (main env_no_compute argv0) = Inl e) \<and>
   snd (main_compute env_no_compute \<lparr>databricks_workspace_name = ''dbx'', build_id = ''local''\<rparr> ws_bare)
     = Inl (NameError ''args'')"
proof -
  have w: "snd (main_workspace env_no_compute) = Inr ws_bare"
    by (simp add: main_workspace_def io_defs env_defs)
  have m: "map_of (compute_targets ws_bare) ''databricks'' = None"
    by (simp add: ws_bare_def)
  have t: "r_token_create env_no_compute = Inr [(''token_value'', PStr ''dapi123'')]"
    by (simp add: env_defs)
  have k: "map_of [(''token_value'', PStr ''dapi123'')] ''token_value'' = Some (PStr ''dapi123'')"
    by simp
  show ?thesis
    using create_branch_never_completes [of env_no_compute ws_bare _ "PStr ''dapi123''" argv0
        "[(''token_value'', PStr ''dapi123'')]"
        "\<lparr>databricks_workspace_name = ''dbx'', build_id = ''local''\<rparr>"] w m t k
    by simp
qed

subsection \<open>Looking up the instance pool\<close>







subsection \<open>Command line\<close>

lemma parse_argv0:
  "parse_args neg [''--databricks_workspace_name'', ''dbx'']
     = Inr \<lparr>databricks_workspace_name = ''dbx'', build_id = ''local''\<rparr>"
  by (simp add: parse_args_def parse_optional_def option_string_actions_def)




lemma takeWhile_option: "takeWhile (\<lambda>c. c \<noteq> CHR ''='') (option_of d) = option_of d"
  by (cases d) simp_all






















subsection \<open>Uploading the notebook\<close>

lemma upload_notebook_Inr:
  assumes "snd (upload_notebook env folder d n) = Inr p"
  shows "\<exists>content. r_open_read env (d @ ''/'' @ n @ ''.py'') = Inr content \<and>
         p = folder @ ''/'' @ sha1_hexdigest env (utf8_encode env content) @ ''/'' @ n"
  using assms by (auto simp: upload_notebook_def io_defs Let_def split: sum.splits)

lemma upload_notebook_ok:
  assumes "r_open_read env (d @ ''/'' @ n @ ''.py'') = Inr content"
    and "r_mkdirs env = Inr ()" and "r_import env = Inr ()"
  shows "snd (upload_notebook env folder d n) =
           Inr (folder @ ''/'' @ sha1_hexdigest env (utf8_encode env content) @ ''/'' @ n)"
  using assms by (simp add: upload_notebook_def io_defs Let_def)

text \<open>
  C10. \<open>upload_notebook\<close> returns the path \<open>{notebook_folder}/{sha1}/{notebook_name}\<close>,
  where \<open>sha1\<close> is the hex SHA-1 digest of the UTF-8 encoding of the file's content; it
  does return it when the two posts succeed; and two runs that read the same content,
  with the same folder and name, return the same path.
\<close>

theorem upload_notebook_path:
  assumes "r_open_read env (d @ ''/'' @ n @ ''.py'') = Inr content"
    and "r_open_read env' (d @ ''/'' @ n @ ''.py'') = Inr content"
    and "utf8_encode env' = utf8_encode env" and "sha1_hexdigest env' = sha1_hexdigest env"
  shows "(\<forall>p. snd (upload_notebook env folder d n) = Inr p \<longrightarrow>
            p = folder @ ''/'' @ sha1_hexdigest env (utf8_encode env content) @ ''/'' @ n) \<and>
         (r_mkdirs env = Inr () \<and> r_import env = Inr () \<longrightarrow>
            snd (upload_notebook env folder d n) =
              Inr (folder @ ''/'' @ sha1_hexdigest env (utf8_encode env content) @ ''/'' @ n)) \<and>
         (\<forall>p p'. snd (upload_notebook env folder d n) = Inr p \<longrightarrow>
                 snd (upload_notebook env' folder d n) = Inr p' \<longrightarrow> p = p')"
proof (intro conjI allI impI)
  fix p
  assume "snd (upload_notebook env folder d n) = Inr p"
  from upload_notebook_Inr [OF this] obtain c where
    c: "r_open_read env (d @ ''/'' @ n @ ''.py'') = Inr c"
    and p: "p = folder @ ''/'' @ sha1_hexdigest env (utf8_encode env c) @ ''/'' @ n"
    by blast
  from c assms(1) have "c = content" by simp
  with p show "p = folder @ ''/'' @ sha1_hexdigest env (utf8_encode env content) @ ''/'' @ n"
    by simp
next
  assume "r_mkdirs env = Inr () \<and> r_import env = Inr ()"
  then show "snd (upload_notebook env folder d n) =
              Inr (folder @ ''/'' @ sha1_hexdigest env (utf8_encode env content) @ ''/'' @ n)"
    using assms(1) by (simp add: upload_notebook_ok)
next
  fix p p'
  assume a: "snd (upload_notebook env folder d n) = Inr p"
    and b: "snd (upload_notebook env' folder d n) = Inr p'"
  from upload_notebook_Inr [OF a] obtain c where
    c: "r_open_read env (d @ ''/'' @ n @ ''.py'') = Inr c"
    and p: "p = folder @ ''/'' @ sha1_hexdigest env (utf8_encode env c) @ ''/'' @ n"
    by blast
  from upload_notebook_Inr [OF b] obtain c' where
    c': "r_open_read env' (d @ ''/'' @ n @ ''.py'') = Inr c'"
    and p': "p' = folder @ ''/'' @ sha1_hexdigest env' (utf8_encode env' c') @ ''/'' @ n"
    by blast
  from c assms(1) have "c = content" by simp
  moreover from c' assms(2) have "c' = content" by simp
  ultimately show "p = p'"
    using p p' assms(3,4) by simp
qed

theorem upload_notebook_path_witness:
  "r_open_read env_ok (''code/prepare'' @ ''/'' @ ''feature_engineering'' @ ''.py'') = Inr ''x = 1'' \<and>
   r_open_read env_offline (''code/prepare'' @ ''/'' @ ''feature_engineering'' @ ''.py'') = Inr ''x = 1'' \<and>
   utf8_encode env_offline = utf8_encode env_ok \<and>
   sha1_hexdigest env_offline = sha1_hexdigest env_ok \<and>
   r_mkdirs env_ok = Inr () \<and> r_import env_ok = Inr () \<and>
   snd (upload_notebook env_ok ''/Shared/AzureMLDeployed'' ''code/prepare'' ''feature_engineering'')
     = Inr ''/Shared/AzureMLDeployed/5f1d/feature_engineering'' \<and>
   snd (upload_notebook env_offline ''/Shared/AzureMLDeployed'' ''code/prepare'' ''feature_engineering'')
     = Inr ''/Shared/AzureMLDeployed/5f1d/feature_engineering''"
proof -
  have a: "r_open_read env_ok (''code/prepare'' @ ''/'' @ ''feature_engineering'' @ ''.py'') = Inr ''x = 1''"
    by (simp add: env_ok_def)
  have b: "r_open_read env_offline (''code/prepare'' @ ''/'' @ ''feature_engineering'' @ ''.py'') = Inr ''x = 1''"
    by (simp add: env_ok_def env_offline_def)
  have c: "utf8_encode env_offline = utf8_encode env_ok" by (simp add: env_offline_def)
  have d: "sha1_hexdigest env_offline = sha1_hexdigest env_ok" by (simp add: env_offline_def)
  have e: "snd (upload_notebook env_offline ''/Shared/AzureMLDeployed'' ''code/prepare'' ''feature_engineering'')
     = Inr ''/Shared/AzureMLDeployed/5f1d/feature_engineering''"
    by (simp add: upload_notebook_def io_defs env_ok_def env_offline_def Let_def)
  have f: "r_mkdirs env_ok = Inr () \<and> r_import env_ok = Inr ()" by (simp add: env_ok_def)
  have g: "sha1_hexdigest env_ok (utf8_encode env_ok ''x = 1'') = ''5f1d''" by (simp add: env_ok_def)
  from upload_notebook_path [OF a b c d, of "''/Shared/AzureMLDeployed''"] f
  have "snd (upload_notebook env_ok ''/Shared/AzureMLDeployed'' ''code/prepare'' ''feature_engineering'')
     = Inr (''/Shared/AzureMLDeployed'' @ ''/'' @
            sha1_hexdigest env_ok (utf8_encode env_ok ''x = 1'') @ ''/'' @ ''feature_engineering'')"
    by blast
  then have h: "snd (upload_notebook env_ok ''/Shared/AzureMLDeployed'' ''code/prepare'' ''feature_engineering'')
     = Inr ''/Shared/AzureMLDeployed/5f1d/feature_engineering''"
    by (simp add: g)
  show ?thesis
    using a b c d e f h by blast
qed

subsection \<open>Traces of sequenced computations\<close>

lemma snd_bnd: "snd (bnd m f) = (case snd m of Inl e \<Rightarrow> Inl e | Inr x \<Rightarrow> snd (f x))"
  by (simp add: bnd_def split: sum.splits)

lemma fst_bnd: "fst (bnd m f) = (case snd m of Inl e \<Rightarrow> fst m | Inr x \<Rightarrow> fst m @ fst (f x))"
  by (simp add: bnd_def split: sum.splits)

lemma calls_bnd:
  "calls (bnd m f) = (case snd m of Inl e \<Rightarrow> calls m | Inr x \<Rightarrow> calls m @ calls (f x))"
  by (simp add: calls_def fst_bnd split: sum.splits)

lemma calls_simps:
  "calls (ext ev r) = [ev]" "calls (ext_try ev r') = [ev]" "calls (lift r) = []" "calls (ret x) = []"
  by (simp_all add: io_defs)

lemma snd_simps:
  "snd (ext ev r) = r" "snd (lift r) = r" "snd (ret x) = Inr x"
  "snd (ext_try ev r') = Inr (case r' of Inl e \<Rightarrow> None | Inr x \<Rightarrow> Some x)"
  by (simp_all add: io_defs)

lemma phases_bnd:
  "phases (bnd m f) = (case snd m of Inl e \<Rightarrow> phases m | Inr x \<Rightarrow> phases m @ phases (f x))"
  by (simp add: phases_def calls_bnd split: sum.splits)

lemma phases_simps:
  "phases (ext ev r) = (if phase ev = 0 then [] else [phase ev])"
  "phases (ext_try ev r') = (if phase ev = 0 then [] else [phase ev])"
  "phases (lift r) = []" "phases (ret x) = []"
  by (simp_all add: phases_def calls_simps)

lemma times_bnd:
  "count_calls P (bnd m f) = (case snd m of Inl e \<Rightarrow> count_calls P m | Inr x \<Rightarrow> count_calls P m + count_calls P (f x))"
  by (simp add: count_calls_def calls_bnd split: sum.splits)

lemma times_simps:
  "count_calls P (ext ev r) = (if P ev then 1 else 0)"
  "count_calls P (ext_try ev r') = (if P ev then 1 else 0)"
  "count_calls P (lift r) = 0" "count_calls P (ret x) = 0"
  by (simp_all add: count_calls_def calls_simps)

subsection \<open>Exceptions\<close>

lemma propagates_bnd:
  assumes m: "propagates m" and f: "\<And>x. propagates (f x)"
  shows "propagates (bnd m f)"
proof (cases "snd m")
  case (Inl e)
  then have "bnd m f = (fst m, Inl e)" by (simp add: bnd_def)
  with m Inl show ?thesis by (simp add: propagates_def)
next
  case (Inr x)
  have none: "\<And>ev e. (ev, Some e) \<in> set (fst m) \<Longrightarrow> ev = ERunGetContext"
    using m Inr by (auto simp: propagates_def)
  show ?thesis
    unfolding propagates_def
  proof (intro allI impI)
    fix ev e
    assume a: "(ev, Some e) \<in> set (fst (bnd m f))" and b: "ev \<noteq> ERunGetContext"
    from a Inr have "(ev, Some e) \<in> set (fst m) \<or> (ev, Some e) \<in> set (fst (f x))"
      by (simp add: fst_bnd)
    with none b have i: "(ev, Some e) \<in> set (fst (f x))" by blast
    with f [of x] b have s: "snd (f x) = Inl e" and l: "last (fst (f x)) = (ev, Some e)"
      by (auto simp: propagates_def)
    from i have "fst (f x) \<noteq> []" by auto
    with l Inr s show "snd (bnd m f) = Inl e \<and> last (fst (bnd m f)) = (ev, Some e)"
      by (simp add: fst_bnd snd_bnd)
  qed
qed

lemma propagates_simps:
  "propagates (ext ev r)" "propagates (ext_try ERunGetContext r')"
  "propagates (lift r'')" "propagates (ret x)"
  by (cases r; simp add: propagates_def io_defs)+

lemma propagates_workspace: "propagates (main_workspace env)"
  unfolding main_workspace_def
  by (intro propagates_bnd propagates_simps) (auto intro!: propagates_bnd propagates_simps split: option.splits)

lemma propagates_client: "propagates (main_client env a ws)"
  unfolding main_client_def Let_def
  by (intro propagates_bnd propagates_simps)

lemma propagates_create: "propagates (create_databricks_compute env ws n t)"
  unfolding create_databricks_compute_def
  by (intro propagates_bnd propagates_simps)

lemma propagates_compute: "propagates (main_compute env a ws)"
  unfolding main_compute_def Let_def
  by (intro propagates_bnd propagates_simps)
     (auto intro!: propagates_bnd propagates_simps propagates_create split: option.splits)

lemma propagates_get_pool: "propagates (get_instance_pool env i n)"
  unfolding get_instance_pool_def
  by (intro propagates_bnd propagates_simps)

lemma propagates_pool: "propagates (main_pool env)"
  unfolding main_pool_def Let_def
  by (intro propagates_bnd propagates_get_pool)
     (auto intro!: propagates_bnd propagates_simps propagates_get_pool)

lemma propagates_upload: "propagates (upload_notebook env f d n)"
  unfolding upload_notebook_def Let_def
  by (intro propagates_bnd propagates_simps)

lemma propagates_publish: "propagates (main_publish env a)"
  unfolding main_publish_def
  by (intro propagates_bnd propagates_simps)

lemma propagates_main: "propagates (main env argv)"
  unfolding main_def Let_def
  by (intro propagates_bnd propagates_simps propagates_workspace propagates_client
      propagates_compute propagates_pool propagates_upload propagates_publish)

lemmas stage_defs = main_def main_workspace_def main_client_def main_compute_def main_pool_def
  main_publish_def upload_notebook_def get_instance_pool_def create_databricks_compute_def
  pool_of_response_def get_databricks_compute_def parse_argv0 load_name_def module_globals_def
  DATABRICKS_RUNTIME_VERSION_def

text \<open>
  C4, as amended. The exceptions of \<open>Run.get_context\<close> are caught (bare \<open>except\<close>) and the
  script goes on with \<open>Workspace.from_config\<close>. The exception of every other call
  propagates and ends the process: the call is the last one made and its exception is the
  outcome of \<open>main\<close>.
\<close>

theorem exceptions_propagate:
  "((ev, Some e) \<in> set (fst (main env argv)) \<longrightarrow> ev \<noteq> ERunGetContext \<longrightarrow>
      snd (main env argv) = Inl e \<and> last (fst (main env argv)) = (ev, Some e)) \<and>
   (r_get_context env = Inl e' \<longrightarrow>
      take 2 (fst (main_workspace env)) =
        [(ERunGetContext, Some e'), (EWorkspaceFromConfig, raised (r_from_config env))])"
proof -
  have "propagates (main env argv)"
    by (rule propagates_main)
  then have a: "(ev, Some e) \<in> set (fst (main env argv)) \<longrightarrow> ev \<noteq> ERunGetContext \<longrightarrow>
      snd (main env argv) = Inl e \<and> last (fst (main env argv)) = (ev, Some e)"
    by (simp add: propagates_def)
  have b: "r_get_context env = Inl e' \<longrightarrow>
      take 2 (fst (main_workspace env)) =
        [(ERunGetContext, Some e'), (EWorkspaceFromConfig, raised (r_from_config env))]"
    by (simp add: main_workspace_def io_defs split: sum.splits)
  from a b show ?thesis by (rule conjI)
qed

lemma run_offline:
  "snd (main env_offline argv0) = Inr () \<and>
   take 3 (fst (main env_offline argv0)) =
     [(EParseArgs, None), (ERunGetContext, Some (External ''RunEnvironmentException'')),
      (EWorkspaceFromConfig, None)]"
  by (simp add: io_defs stage_defs env_defs Let_def)

lemma run_publish_fails:
  "snd (main env_publish_fails argv0) = Inl (External ''ServiceException'') \<and>
   last (fst (main env_publish_fails argv0)) = (EPublish ''local'', Some (External ''ServiceException''))"
  by (simp add: io_defs stage_defs env_defs env_publish_fails_def Let_def)

text \<open>
  C4 as stated fails: in a run outside Azure ML \<open>Run.get_context\<close> raises, the exception is
  caught and the run completes.
\<close>

theorem get_context_exception_caught:
  "(ERunGetContext, Some (External ''RunEnvironmentException'')) \<in> set (fst (main env_offline argv0)) \<and>
   snd (main env_offline argv0) = Inr ()"
proof -
  have "(ERunGetContext, Some (External ''RunEnvironmentException''))
          \<in> set (take 3 (fst (main env_offline argv0)))"
    using run_offline by simp
  then have "(ERunGetContext, Some (External ''RunEnvironmentException''))
          \<in> set (fst (main env_offline argv0))"
    by (rule in_set_takeD)
  with run_offline show ?thesis by simp
qed

lemma last_in_set: "xs \<noteq> [] \<Longrightarrow> last xs = x \<Longrightarrow> x \<in> set xs"
  by auto

theorem exceptions_propagate_witness:
  "(EPublish ''local'', Some (External ''ServiceException'')) \<in> set (fst (main env_publish_fails argv0)) \<and>
   EPublish ''local'' \<noteq> ERunGetContext \<and>
   snd (main env_publish_fails argv0) = Inl (External ''ServiceException'') \<and>
   last (fst (main env_publish_fails argv0)) = (EPublish ''local'', Some (External ''ServiceException'')) \<and>
   r_get_context env_offline = Inl (External ''RunEnvironmentException'') \<and>
   take 2 (fst (main_workspace env_offline)) =
     [(ERunGetContext, Some (External ''RunEnvironmentException'')), (EWorkspaceFromConfig, None)]"
proof -
  have n: "fst (main env_publish_fails argv0) \<noteq> []"
    by (simp add: main_def fst_bnd ext_def split: sum.splits)
  have i: "(EPublish ''local'', Some (External ''ServiceException'')) \<in> set (fst (main env_publish_fails argv0))"
    using run_publish_fails by (intro last_in_set [OF n]) simp
  have g: "r_get_context env_offline = Inl (External ''RunEnvironmentException'')"
    by (simp add: env_defs)
  have f: "raised (r_from_config env_offline) = None"
    by (simp add: env_defs)
  show ?thesis
    using exceptions_propagate [of "EPublish ''local''" "External ''ServiceException''"
        env_publish_fails argv0]
      exceptions_propagate [of _ _ env_offline _ "External ''RunEnvironmentException''"] i g f
    by simp
qed

subsection \<open>The order of the operations\<close>

lemma phases_create: "phases (create_databricks_compute env ws n t) = [2]"
  by (simp add: create_raises phases_def calls_def)

lemma phases_get_pool: "set (phases (get_instance_pool env i n)) = {3}"
  by (auto simp: get_instance_pool_def phases_bnd phases_simps snd_simps split: sum.splits)

lemma phases_workspace: "set (phases (main_workspace env)) \<subseteq> {1}"
  by (auto simp: main_workspace_def phases_bnd phases_simps snd_simps snd_bnd
      split: sum.splits option.splits)

lemma phases_client: "set (phases (main_client env a ws)) = {1}"
  by (auto simp: main_client_def Let_def phases_bnd phases_simps snd_simps split: sum.splits)

lemma phases_compute: "set (phases (main_compute env a ws)) = {2}"
  by (auto simp: main_compute_def Let_def phases_bnd phases_simps snd_simps snd_bnd phases_create
      split: sum.splits option.splits)

lemma phases_pool: "set (phases (main_pool env)) = {3}"
  using phases_get_pool [of env 0 "''azureml_training''"]
    phases_get_pool [of env 1 "''azureml_training''"]
  by (auto simp: main_pool_def Let_def phases_bnd phases_simps snd_simps snd_bnd
      split: sum.splits)

lemma phases_upload: "set (phases (upload_notebook env f d n)) = {4}"
  by (auto simp: upload_notebook_def Let_def phases_bnd phases_simps snd_simps split: sum.splits)

lemma phases_publish: "set (phases (main_publish env a)) = {6}"
  by (auto simp: main_publish_def phases_bnd phases_simps snd_simps split: sum.splits)

lemma sorted_const: "\<forall>x \<in> set xs. x = (j::nat) \<Longrightarrow> sorted xs"
  by (induction xs) auto

lemma ordered_base:
  assumes "set (phases m) \<subseteq> {j}" and "k \<le> j"
  shows "sorted (phases m) \<and> set (phases m) \<subseteq> {k..}"
proof -
  have "\<forall>x \<in> set (phases m). x = j" using assms(1) by auto
  then have "sorted (phases m)" by (rule sorted_const)
  with assms show ?thesis by auto
qed

lemma ordered_bnd:
  assumes "set (phases m) \<subseteq> {j}" and "k \<le> j"
    and "\<And>x. sorted (phases (f x)) \<and> set (phases (f x)) \<subseteq> {j..}"
  shows "sorted (phases (bnd m f)) \<and> set (phases (bnd m f)) \<subseteq> {k..}"
proof (cases "snd m")
  case (Inl e)
  then have "phases (bnd m f) = phases m" by (simp add: phases_bnd)
  with ordered_base [OF assms(1,2)] show ?thesis by simp
next
  case (Inr x)
  then have p: "phases (bnd m f) = phases m @ phases (f x)" by (simp add: phases_bnd)
  from ordered_base [OF assms(1,2)] assms(1,2) assms(3) [of x] show ?thesis
    unfolding p by (auto simp: sorted_append)
qed

lemma ordered_skip:
  assumes "phases m = []"
    and "\<And>x. sorted (phases (f x)) \<and> set (phases (f x)) \<subseteq> {k..}"
  shows "sorted (phases (bnd m f)) \<and> set (phases (bnd m f)) \<subseteq> {k..}"
  using assms by (cases "snd m") (simp_all add: phases_bnd)

lemma ordered_main: "sorted (phases (main env argv)) \<and> set (phases (main env argv)) \<subseteq> {0..}"
  unfolding main_def Let_def
  apply (rule ordered_skip, simp add: phases_simps)
  apply (rule ordered_bnd [OF phases_workspace], simp)
  apply (rule ordered_bnd [where j = 1], simp add: phases_client, simp)
  apply (rule ordered_bnd [where j = 2], simp add: phases_compute, simp)
  apply (rule ordered_bnd [where j = 3], simp add: phases_pool, simp)
  apply (rule ordered_skip, simp add: phases_simps)
  apply (rule ordered_skip, simp add: phases_simps)
  apply (rule ordered_skip, simp add: phases_simps)
  apply (rule ordered_skip, simp add: phases_simps)
  apply (rule ordered_bnd [where j = 4], simp add: phases_upload, simp)
  apply (rule ordered_bnd [where j = 5], simp add: phases_simps, simp)
  apply (rule ordered_base [where j = 6], simp add: phases_publish, simp)
  done

lemma main_complete:
  assumes "snd (main env argv) = Inr u"
  shows "\<exists>a ws t i p.
     parse_args (negative_number env) argv = Inr a \<and> snd (main_workspace env) = Inr ws \<and>
     snd (main_client env a ws) = Inr () \<and> snd (main_compute env a ws) = Inr t \<and>
     snd (main_pool env) = Inr i \<and>
     snd (upload_notebook env ''/Shared/AzureMLDeployed'' ''code/prepare'' ''feature_engineering'') = Inr p \<and>
     snd (main_publish env a) = Inr u \<and>
     calls (main env argv) =
       [EParseArgs] @ calls (main_workspace env) @ calls (main_client env a ws) @
       calls (main_compute env a ws) @ calls (main_pool env) @
       [EDatastore ''workspaceblobstore'', EDatastore ''trainingdata'', EDataReference,
        EPipelineData ''feature_engineered''] @
       calls (upload_notebook env ''/Shared/AzureMLDeployed'' ''code/prepare'' ''feature_engineering'') @
       [EDatabricksStep i p t] @ calls (main_publish env a)"
  using assms unfolding main_def Let_def
  by (auto simp: snd_bnd calls_bnd calls_simps snd_simps split: sum.splits)

lemma set_phases: "set (phases m) = {k. k \<noteq> 0 \<and> k \<in> phase ` set (calls m)}"
  by (auto simp: phases_def)

lemma run_ok: "snd (main env_ok argv0) = Inr ()"
  by (simp add: io_defs stage_defs env_defs Let_def)

subsection \<open>How often a call is made\<close>

lemma times_zero:
  assumes P: "\<And>ev. P ev \<Longrightarrow> phase ev = j" and j: "j \<noteq> 0"
    and m: "set (phases m) \<subseteq> {k}" and jk: "j \<noteq> k"
  shows "count_calls P m = 0"
proof -
  have "\<not> P ev" if "ev \<in> set (calls m)" for ev
  proof
    assume "P ev"
    then have "phase ev = j" by (rule P)
    with that j have "j \<in> set (phases m)" by (force simp: set_phases)
    with m jk show False by auto
  qed
  then show ?thesis by (simp add: count_calls_def)
qed

lemma times_bnd_le:
  assumes "count_calls P m \<le> a" and "\<And>x. count_calls P (f x) \<le> b"
  shows "count_calls P (bnd m f) \<le> a + b"
proof (cases "snd m")
  case (Inl e)
  with assms(1) show ?thesis by (simp add: times_bnd)
next
  case (Inr x)
  with assms(1) assms(2) [of x] show ?thesis by (simp add: times_bnd)
qed

lemma times_main:
  assumes P: "\<And>ev. P ev \<Longrightarrow> phase ev = j" and j: "j \<noteq> 0" "j \<noteq> 1" "j \<noteq> 5"
    and k: "\<And>a ws. count_calls P (main_compute env a ws) \<le> bk"
    and p: "count_calls P (main_pool env) \<le> bp"
    and u: "\<And>f d n. count_calls P (upload_notebook env f d n) \<le> bu"
    and q: "\<And>a. count_calls P (main_publish env a) \<le> bq"
  shows "count_calls P (main env argv) \<le> bk + bp + bu + bq"
proof -
  have n: "\<not> P ev" if "phase ev = 0 \<or> phase ev = 5" for ev
    using P [of ev] j that by auto
  have w: "count_calls P (main_workspace env) \<le> 0"
    using times_zero [OF P j(1) phases_workspace j(2)] by simp
  have c: "\<And>a ws. count_calls P (main_client env a ws) \<le> 0"
    using times_zero [OF P j(1) _ j(2), where m = "main_client env a ws" for a ws]
    by (simp add: phases_client)
  have "count_calls P (main env argv) \<le>
          0 + (0 + (0 + (bk + (bp + (0 + (0 + (0 + (0 + (bu + (0 + bq))))))))))"
    unfolding main_def Let_def
    apply (rule times_bnd_le, simp add: times_simps n)
    apply (rule times_bnd_le, rule w)
    apply (rule times_bnd_le, rule c)
    apply (rule times_bnd_le, rule k)
    apply (rule times_bnd_le, rule p)
    apply (rule times_bnd_le, simp add: times_simps n)
    apply (rule times_bnd_le, simp add: times_simps n)
    apply (rule times_bnd_le, simp add: times_simps n)
    apply (rule times_bnd_le, simp add: times_simps n)
    apply (rule times_bnd_le, rule u)
    apply (rule times_bnd_le, simp add: times_simps n)
    apply (rule q)
    done
  then show ?thesis by simp
qed

lemma phase_is_post:
  "is_post ''token/create'' ev \<Longrightarrow> phase ev = 2"
  "is_post ''instance-pools/create'' ev \<Longrightarrow> phase ev = 3"
  "is_post ''workspace/mkdirs'' ev \<Longrightarrow> phase ev = 4"
  "is_post ''workspace/import'' ev \<Longrightarrow> phase ev = 4"
  by (cases ev; simp)+

lemma phase_is_other:
  "is_get ''instance-pools/list'' ev \<Longrightarrow> phase ev = 3"
  "is_attach ev \<Longrightarrow> phase ev = 2"
  "is_publish ev \<Longrightarrow> phase ev = 6"
  by (cases ev; simp)+

lemma times_create: "count_calls P (create_databricks_compute env ws n t)
    = (if P (ECall ''create_databricks_compute'') then 1 else 0)"
  by (simp add: create_raises count_calls_def calls_def)

lemma times_compute:
  "count_calls (is_post ''token/create'') (main_compute env a ws) \<le> 1"
  "count_calls is_attach (main_compute env a ws) \<le> 0"
  by (simp_all add: main_compute_def Let_def times_bnd times_simps snd_simps snd_bnd times_create
      split: sum.splits option.splits)

lemma times_get_pool:
  "count_calls (is_get ''instance-pools/list'') (get_instance_pool env i n) \<le> 1"
  "count_calls (is_post ''instance-pools/create'') (get_instance_pool env i n) = 0"
  by (simp_all add: get_instance_pool_def times_bnd times_simps snd_simps split: sum.splits)

lemma times_pool:
  "count_calls (is_post ''instance-pools/create'') (main_pool env) \<le> 1"
  "count_calls (is_get ''instance-pools/list'') (main_pool env) \<le> 2"
proof -
  show "count_calls (is_post ''instance-pools/create'') (main_pool env) \<le> 1"
    by (simp add: main_pool_def Let_def times_bnd times_simps snd_simps snd_bnd times_get_pool
        split: sum.splits)
  show "count_calls (is_get ''instance-pools/list'') (main_pool env) \<le> 2"
    using times_get_pool(1) [of env 0 "''azureml_training''"]
      times_get_pool(1) [of env 1 "''azureml_training''"]
    by (simp add: main_pool_def Let_def times_bnd times_simps snd_simps snd_bnd
        split: sum.splits)
qed

lemma times_upload:
  "count_calls (is_post ''workspace/mkdirs'') (upload_notebook env f d n) \<le> 1"
  "count_calls (is_post ''workspace/import'') (upload_notebook env f d n) \<le> 1"
  by (simp_all add: upload_notebook_def Let_def times_bnd times_simps snd_simps split: sum.splits)

lemma times_publish: "count_calls is_publish (main_publish env a) \<le> 1"
  by (simp add: main_publish_def times_bnd times_simps snd_simps split: sum.splits)

lemma times_zero_le:
  assumes "\<And>ev. P ev \<Longrightarrow> phase ev = j" and "j \<noteq> 0"
    and "set (phases m) \<subseteq> {k}" and "j \<noteq> k"
  shows "count_calls P m \<le> 0"
  using times_zero [OF assms] by simp

lemma times_main_compute:
  assumes P: "\<And>ev. P ev \<Longrightarrow> phase ev = 2"
    and b: "\<And>a ws. count_calls P (main_compute env a ws) \<le> b"
  shows "count_calls P (main env argv) \<le> b"
proof -
  have "count_calls P (main env argv) \<le> b + 0 + 0 + 0"
  proof (rule times_main [OF P])
    show "count_calls P (main_pool env) \<le> 0"
      by (rule times_zero_le [OF P, where k = 3]) (simp_all add: phases_pool)
    show "count_calls P (upload_notebook env f d n) \<le> 0" for f d n
      by (rule times_zero_le [OF P, where k = 4]) (simp_all add: phases_upload)
    show "count_calls P (main_publish env a) \<le> 0" for a
      by (rule times_zero_le [OF P, where k = 6]) (simp_all add: phases_publish)
  qed (simp_all add: b)
  then show ?thesis by simp
qed

lemma times_main_pool:
  assumes P: "\<And>ev. P ev \<Longrightarrow> phase ev = 3"
    and b: "count_calls P (main_pool env) \<le> b"
  shows "count_calls P (main env argv) \<le> b"
proof -
  have "count_calls P (main env argv) \<le> 0 + b + 0 + 0"
  proof (rule times_main [OF P])
    show "count_calls P (main_compute env a ws) \<le> 0" for a ws
      by (rule times_zero_le [OF P, where k = 2]) (simp_all add: phases_compute)
    show "count_calls P (upload_notebook env f d n) \<le> 0" for f d n
      by (rule times_zero_le [OF P, where k = 4]) (simp_all add: phases_upload)
    show "count_calls P (main_publish env a) \<le> 0" for a
      by (rule times_zero_le [OF P, where k = 6]) (simp_all add: phases_publish)
  qed (simp_all add: b)
  then show ?thesis by simp
qed

lemma times_main_upload:
  assumes P: "\<And>ev. P ev \<Longrightarrow> phase ev = 4"
    and b: "\<And>f d n. count_calls P (upload_notebook env f d n) \<le> b"
  shows "count_calls P (main env argv) \<le> b"
proof -
  have "count_calls P (main env argv) \<le> 0 + 0 + b + 0"
  proof (rule times_main [OF P])
    show "count_calls P (main_compute env a ws) \<le> 0" for a ws
      by (rule times_zero_le [OF P, where k = 2]) (simp_all add: phases_compute)
    show "count_calls P (main_pool env) \<le> 0"
      by (rule times_zero_le [OF P, where k = 3]) (simp_all add: phases_pool)
    show "count_calls P (main_publish env a) \<le> 0" for a
      by (rule times_zero_le [OF P, where k = 6]) (simp_all add: phases_publish)
  qed (simp_all add: b)
  then show ?thesis by simp
qed

lemma times_main_publish:
  assumes P: "\<And>ev. P ev \<Longrightarrow> phase ev = 6"
    and b: "\<And>a. count_calls P (main_publish env a) \<le> b"
  shows "count_calls P (main env argv) \<le> b"
proof -
  have "count_calls P (main env argv) \<le> 0 + 0 + 0 + b"
  proof (rule times_main [OF P])
    show "count_calls P (main_compute env a ws) \<le> 0" for a ws
      by (rule times_zero_le [OF P, where k = 2]) (simp_all add: phases_compute)
    show "count_calls P (main_pool env) \<le> 0"
      by (rule times_zero_le [OF P, where k = 3]) (simp_all add: phases_pool)
    show "count_calls P (upload_notebook env f d n) \<le> 0" for f d n
      by (rule times_zero_le [OF P, where k = 4]) (simp_all add: phases_upload)
  qed (simp_all add: b)
  then show ?thesis by simp
qed

text \<open>
  C9. No call is retried: in every run of \<open>main\<close>, complete or not, each of
  \<open>token/create\<close>, \<open>instance-pools/create\<close>, \<open>workspace/mkdirs\<close>, \<open>workspace/import\<close>,
  the compute attach and the pipeline publish is made at most once, and
  \<open>instance-pools/list\<close> at most twice.
\<close>

theorem no_call_repeated:
  "count_calls (is_post ''token/create'') (main env argv) \<le> 1 \<and>
   count_calls (is_post ''instance-pools/create'') (main env argv) \<le> 1 \<and>
   count_calls (is_post ''workspace/mkdirs'') (main env argv) \<le> 1 \<and>
   count_calls (is_post ''workspace/import'') (main env argv) \<le> 1 \<and>
   count_calls is_attach (main env argv) \<le> 1 \<and>
   count_calls is_publish (main env argv) \<le> 1 \<and>
   count_calls (is_get ''instance-pools/list'') (main env argv) \<le> 2"
proof -
  have "count_calls (is_post ''token/create'') (main env argv) \<le> 1"
    by (rule times_main_compute [OF phase_is_post(1) times_compute(1)])
  moreover
  have "count_calls is_attach (main env argv) \<le> 0"
    by (rule times_main_compute [OF phase_is_other(2) times_compute(2)])
  moreover
  have "count_calls (is_post ''instance-pools/create'') (main env argv) \<le> 1"
    by (rule times_main_pool [OF phase_is_post(2) times_pool(1)])
  moreover
  have "count_calls (is_get ''instance-pools/list'') (main env argv) \<le> 2"
    by (rule times_main_pool [OF phase_is_other(1) times_pool(2)])
  moreover
  have "count_calls (is_post ''workspace/mkdirs'') (main env argv) \<le> 1"
    by (rule times_main_upload [OF phase_is_post(3) times_upload(1)])
  moreover
  have "count_calls (is_post ''workspace/import'') (main env argv) \<le> 1"
    by (rule times_main_upload [OF phase_is_post(4) times_upload(2)])
  moreover
  have "count_calls is_publish (main env argv) \<le> 1"
    by (rule times_main_publish [OF phase_is_other(3) times_publish])
  ultimately show ?thesis by simp
qed

subsection \<open>Ensuring the instance pool\<close>



lemma main_pool_create_fails:
  assumes "snd (get_instance_pool env 0 ''azureml_training'') = Inr v" and "\<not> truthy v"
    and "r_pools_create env = Inl e"
  shows "snd (main_pool env) = Inl e"
  using assms
  by (simp add: main_pool_def Let_def snd_bnd snd_simps)






subsection \<open>Reconciling the compute target\<close>

lemma calls_create:
  "calls (create_databricks_compute env ws n t) = [ECall ''create_databricks_compute'']"
  by (simp add: create_raises calls_def)

lemma snd_create:
  "snd (create_databricks_compute env ws n t) = Inl (NameError ''args'')"
  by (simp add: create_raises)

lemma main_compute_exists:
  assumes "map_of (compute_targets ws) ''databricks'' = Some (TObj DatabricksCompute r)"
  shows "main_compute env a ws =
           ([(ECall ''get_databricks_compute'', None), (EPrint ''dbricks_compute:'', None),
             (EPrint r, None)], Inr (TObj DatabricksCompute r))"
  using assms
  by (simp add: main_compute_def get_databricks_compute_def Let_def io_defs)

lemma main_compute_other:
  assumes "map_of (compute_targets ws) ''databricks'' = Some t" and "\<not> is_databricks t"
  shows "calls (main_compute env a ws) = [ECall ''get_databricks_compute'']"
  using assms
  by (simp add: main_compute_def get_databricks_compute_def Let_def calls_bnd calls_simps snd_simps)

lemma main_compute_calls_missing:
  assumes "map_of (compute_targets ws) ''databricks'' = None"
  shows "\<exists>j rest. calls (main_compute env a ws) =
           ECall ''get_databricks_compute'' # EPost ''token/create'' j # rest \<and>
           (rest = [] \<or> rest = [ECall ''create_databricks_compute'']) \<and>
           ((\<exists>response tok. r_token_create env = Inr response \<and>
                map_of response ''token_value'' = Some tok) \<longrightarrow>
              rest = [ECall ''create_databricks_compute''])"
  using assms
  by (auto simp: main_compute_def get_databricks_compute_def Let_def calls_bnd calls_simps
      snd_simps snd_bnd calls_create snd_create split: sum.splits option.splits)

lemma databricks_cases:
  obtains "map_of (compute_targets ws) ''databricks'' = None"
  | r where "map_of (compute_targets ws) ''databricks'' = Some (TObj DatabricksCompute r)"
  | t where "map_of (compute_targets ws) ''databricks'' = Some t" "\<not> is_databricks t"
proof (cases "map_of (compute_targets ws) ''databricks''")
  case None
  then show ?thesis using that by blast
next
  case (Some t)
  show ?thesis
  proof (cases "is_databricks t")
    case True
    then obtain r where "t = TObj DatabricksCompute r"
      by (cases t rule: is_databricks.cases) simp_all
    with Some that show ?thesis by blast
  next
    case False
    with Some that show ?thesis by blast
  qed
qed

text \<open>
  Which calls \<open>main\<close> makes for the compute target: the \<open>token/create\<close> call is made if
  and only if the workspace has no compute target named \<open>databricks\<close>;
  \<open>create_databricks_compute\<close> is entered only then, and is entered then as soon as the
  token has been issued. When the target exists as a \<open>DatabricksCompute\<close>, neither call is
  made and the existing target is the one the pipeline step is defined with.
\<close>

lemma compute_reconciliation:
  "((\<exists>j. EPost ''token/create'' j \<in> set (calls (main_compute env a ws))) \<longleftrightarrow>
      map_of (compute_targets ws) ''databricks'' = None) \<and>
   (ECall ''create_databricks_compute'' \<in> set (calls (main_compute env a ws)) \<longrightarrow>
      map_of (compute_targets ws) ''databricks'' = None) \<and>
   (map_of (compute_targets ws) ''databricks'' = None \<longrightarrow>
      (\<exists>response tok. r_token_create env = Inr response \<and>
         map_of response ''token_value'' = Some tok) \<longrightarrow>
      ECall ''create_databricks_compute'' \<in> set (calls (main_compute env a ws))) \<and>
   (\<forall>r. map_of (compute_targets ws) ''databricks'' = Some (TObj DatabricksCompute r) \<longrightarrow>
      main_compute env a ws =
        ([(ECall ''get_databricks_compute'', None), (EPrint ''dbricks_compute:'', None),
          (EPrint r, None)], Inr (TObj DatabricksCompute r))) \<and>
   (\<forall>u r. snd (main env argv) = Inr u \<longrightarrow> snd (main_workspace env) = Inr ws \<longrightarrow>
      map_of (compute_targets ws) ''databricks'' = Some (TObj DatabricksCompute r) \<longrightarrow>
      (\<exists>i p. EDatabricksStep i p (TObj DatabricksCompute r) \<in> set (calls (main env argv))))"
proof -
  have 1: "((\<exists>j. EPost ''token/create'' j \<in> set (calls (main_compute env a ws))) \<longleftrightarrow>
      map_of (compute_targets ws) ''databricks'' = None) \<and>
   (ECall ''create_databricks_compute'' \<in> set (calls (main_compute env a ws)) \<longrightarrow>
      map_of (compute_targets ws) ''databricks'' = None) \<and>
   (map_of (compute_targets ws) ''databricks'' = None \<longrightarrow>
      (\<exists>response tok. r_token_create env = Inr response \<and>
         map_of response ''token_value'' = Some tok) \<longrightarrow>
      ECall ''create_databricks_compute'' \<in> set (calls (main_compute env a ws)))"
  proof (cases rule: databricks_cases [of ws])
    case 1
    from main_compute_calls_missing [OF 1, of env a] obtain j rest where
      c: "calls (main_compute env a ws) =
           ECall ''get_databricks_compute'' # EPost ''token/create'' j # rest"
      and r: "(\<exists>response tok. r_token_create env = Inr response \<and>
                map_of response ''token_value'' = Some tok) \<longrightarrow>
              rest = [ECall ''create_databricks_compute'']"
      by blast
    have "EPost ''token/create'' j \<in> set (calls (main_compute env a ws))"
      by (simp add: c)
    then have "\<exists>j. EPost ''token/create'' j \<in> set (calls (main_compute env a ws))" ..
    moreover have "(\<exists>response tok. r_token_create env = Inr response \<and>
         map_of response ''token_value'' = Some tok) \<longrightarrow>
      ECall ''create_databricks_compute'' \<in> set (calls (main_compute env a ws))"
      using r by (auto simp: c)
    ultimately show ?thesis using 1 by blast
  next
    case (2 r)
    have "calls (main_compute env a ws) =
            [ECall ''get_databricks_compute'', EPrint ''dbricks_compute:'', EPrint r]"
      by (simp add: main_compute_exists [OF 2] calls_def)
    then show ?thesis using 2 by simp
  next
    case (3 t)
    then show ?thesis by (simp add: main_compute_other)
  qed
  have 2: "\<forall>r. map_of (compute_targets ws) ''databricks'' = Some (TObj DatabricksCompute r) \<longrightarrow>
      main_compute env a ws =
        ([(ECall ''get_databricks_compute'', None), (EPrint ''dbricks_compute:'', None),
          (EPrint r, None)], Inr (TObj DatabricksCompute r))"
    by (simp add: main_compute_exists)
  have 3: "\<forall>u r. snd (main env argv) = Inr u \<longrightarrow> snd (main_workspace env) = Inr ws \<longrightarrow>
      map_of (compute_targets ws) ''databricks'' = Some (TObj DatabricksCompute r) \<longrightarrow>
      (\<exists>i p. EDatabricksStep i p (TObj DatabricksCompute r) \<in> set (calls (main env argv)))"
  proof (intro allI impI)
    fix u r
    assume m: "snd (main env argv) = Inr u" and w: "snd (main_workspace env) = Inr ws"
      and d: "map_of (compute_targets ws) ''databricks'' = Some (TObj DatabricksCompute r)"
    from main_complete [OF m] obtain a' ws' t i p where
      w': "snd (main_workspace env) = Inr ws'"
      and t: "snd (main_compute env a' ws') = Inr t"
      and c: "calls (main env argv) =
       [EParseArgs] @ calls (main_workspace env) @ calls (main_client env a' ws') @
       calls (main_compute env a' ws') @ calls (main_pool env) @
       [EDatastore ''workspaceblobstore'', EDatastore ''trainingdata'', EDataReference,
        EPipelineData ''feature_engineered''] @
       calls (upload_notebook env ''/Shared/AzureMLDeployed'' ''code/prepare'' ''feature_engineering'') @
       [EDatabricksStep i p t] @ calls (main_publish env a')"
      by blast
    from w w' have "ws' = ws" by simp
    with t main_compute_exists [OF d, of env a'] have "t = TObj DatabricksCompute r" by simp
    then have "EDatabricksStep i p (TObj DatabricksCompute r) \<in> set (calls (main env argv))"
      by (simp add: c)
    then show "\<exists>i p. EDatabricksStep i p (TObj DatabricksCompute r) \<in> set (calls (main env argv))"
      by blast
  qed
  from 1 2 3 show ?thesis by blast
qed

lemma run_no_compute:
  "calls (main env_no_compute argv0) =
     [EParseArgs, ERunGetContext, EGetDefaultKeyvault, EGetSecret ''TenantId'',
      EGetSecret ''ClientId'', EGetSecret ''ClientSecret'', EServicePrincipalAuthentication,
      EWorkspace, EPrint ''aml'', EGetDefaultKeyvault, EGetSecret ''TenantId'',
      EAuthenticationContext ''https://login.microsoftonline.com/secret-TenantId'',
      EGetSecret ''ClientId'', EGetSecret ''ClientSecret'',
      EClientCreate ''https://westeurope.azuredatabricks.net/api/2.0'', EAuthAzureAD ''dbx'',
      ECall ''get_databricks_compute'',
      EPost ''token/create''
        (PDict [(''comment'', PStr ''Azure ML Token generated by Build local'')]),
      ECall ''create_databricks_compute'']"
  "snd (main env_no_compute argv0) = Inl (NameError ''args'')"
  by (simp_all add: io_defs stage_defs env_defs Let_def)

text \<open>
  C5 fails on the code. The claim: the \<open>token/create\<close> call and the compute attach are
  performed if and only if the compute target named \<open>databricks\<close> is missing. The code:
  \<open>ComputeTarget.attach\<close> is reached in no run of \<open>main\<close> at all. In a workspace without
  the target the token is issued and \<open>create_databricks_compute\<close> is entered, and the run
  ends there with \<open>NameError\<close> for \<open>args\<close>, before anything is attached.
\<close>

theorem attach_never_performed:
  "count_calls is_attach (main env argv) = 0 \<and>
   map_of (compute_targets ws_bare) ''databricks'' = None \<and>
   snd (main_workspace env_no_compute) = Inr ws_bare \<and>
   (\<exists>j. EPost ''token/create'' j \<in> set (calls (main env_no_compute argv0))) \<and>
   ECall ''create_databricks_compute'' \<in> set (calls (main env_no_compute argv0)) \<and>
   snd (main env_no_compute argv0) = Inl (NameError ''args'')"
proof -
  have "count_calls is_attach (main env argv) \<le> 0"
    by (rule times_main_compute [OF phase_is_other(2) times_compute(2)])
  then have z: "count_calls is_attach (main env argv) = 0"
    by simp
  have m: "map_of (compute_targets ws_bare) ''databricks'' = None"
    by (simp add: ws_bare_def)
  have w: "snd (main_workspace env_no_compute) = Inr ws_bare"
    by (simp add: main_workspace_def io_defs env_defs)
  have p: "\<exists>j. EPost ''token/create'' j \<in> set (calls (main env_no_compute argv0))"
    by (simp add: run_no_compute(1))
  have e: "ECall ''create_databricks_compute'' \<in> set (calls (main env_no_compute argv0))"
    by (simp add: run_no_compute(1))
  from z m w p e run_no_compute(2) show ?thesis by (intro conjI)
qed


subsection \<open>The calls of a complete run\<close>

lemma main_workspace_calls:
  assumes "snd (main_workspace env) = Inr ws"
  shows "calls (main_workspace env) = [ERunGetContext, EWorkspaceFromConfig, EPrint (ws_name ws)] \<or>
         calls (main_workspace env) =
           [ERunGetContext, EGetDefaultKeyvault, EGetSecret ''TenantId'', EGetSecret ''ClientId'',
            EGetSecret ''ClientSecret'', EServicePrincipalAuthentication, EWorkspace,
            EPrint (ws_name ws)]"
  using assms
  by (auto simp: main_workspace_def calls_bnd calls_simps snd_simps snd_bnd
      split: sum.splits option.splits)

lemma main_client_calls:
  assumes "snd (main_client env a ws) = Inr u"
  shows "\<exists>tenant. r_secret env ''TenantId'' = Inr tenant \<and>
     calls (main_client env a ws) =
       [EGetDefaultKeyvault, EGetSecret ''TenantId'',
        EAuthenticationContext (''https://login.microsoftonline.com/'' @ tenant),
        EGetSecret ''ClientId'', EGetSecret ''ClientSecret'',
        EClientCreate (''https://'' @ location ws @ ''.azuredatabricks.net/api/2.0''),
        EAuthAzureAD (databricks_workspace_name a)]"
  using assms
  by (auto simp: main_client_def Let_def calls_bnd calls_simps snd_simps snd_bnd
      split: sum.splits)

lemma main_compute_calls:
  assumes "snd (main_compute env a ws) = Inr t"
  shows "\<exists>r. t = TObj DatabricksCompute r \<and>
     map_of (compute_targets ws) ''databricks'' = Some (TObj DatabricksCompute r) \<and>
     calls (main_compute env a ws) =
       [ECall ''get_databricks_compute'', EPrint ''dbricks_compute:'', EPrint r]"
proof (cases rule: databricks_cases [of ws])
  case 1
  from main_compute_missing [OF 1, of env a] assms show ?thesis by auto
next
  case (2 r)
  with assms show ?thesis
    by (simp add: main_compute_exists [OF 2] calls_def)
next
  case (3 t')
  with assms show ?thesis
    by (simp add: main_compute_def get_databricks_compute_def Let_def snd_bnd snd_simps)
qed

lemma get_instance_pool_calls:
  "snd (get_instance_pool env n p) = Inr i \<Longrightarrow>
   calls (get_instance_pool env n p) = [ECall ''get_instance_pool'', EGet ''instance-pools/list'']"
  by (auto simp: get_instance_pool_def calls_bnd calls_simps snd_simps snd_bnd split: sum.splits)

lemma main_pool_calls:
  assumes "snd (main_pool env) = Inr i"
  shows "calls (main_pool env) = [ECall ''get_instance_pool'', EGet ''instance-pools/list''] \<or>
         calls (main_pool env) =
           [ECall ''get_instance_pool'', EGet ''instance-pools/list'',
            EPost ''instance-pools/create''
              (PDict [(''instance_pool_name'', PStr ''azureml_training''),
                      (''node_type_id'', PStr ''Standard_D3_v2''),
                      (''idle_instance_autotermination_minutes'', PInt 10),
                      (''preloaded_spark_versions'', PList [PStr ''6.2.x-scala2.11''])]),
            ECall ''get_instance_pool'', EGet ''instance-pools/list'']"
  using assms
  by (auto simp: main_pool_def Let_def calls_bnd calls_simps snd_simps snd_bnd
      get_instance_pool_calls DATABRICKS_RUNTIME_VERSION_def split: sum.splits if_splits)

lemma upload_notebook_calls:
  assumes "snd (upload_notebook env f d n) = Inr p"
  shows "\<exists>content. r_open_read env (d @ ''/'' @ n @ ''.py'') = Inr content \<and>
     p = f @ ''/'' @ sha1_hexdigest env (utf8_encode env content) @ ''/'' @ n \<and>
     calls (upload_notebook env f d n) =
       [ECall ''upload_notebook'', EOpenRead (d @ ''/'' @ n @ ''.py''),
        EPost ''workspace/mkdirs''
          (PDict [(''path'', PStr (f @ ''/'' @ sha1_hexdigest env (utf8_encode env content)))]),
        EPost ''workspace/import''
          (PDict [(''content'', PStr (b64encode env (utf8_encode env content))),
                  (''path'', PStr p), (''overwrite'', PBool True),
                  (''language'', PStr ''PYTHON''), (''format'', PStr ''SOURCE'')])]"
  using assms
  by (auto simp: upload_notebook_def Let_def calls_bnd calls_simps snd_simps snd_bnd
      split: sum.splits)

lemma main_publish_calls:
  assumes "snd (main_publish env a) = Inr u"
  shows "\<exists>name version. r_publish env = Inr (name, version) \<and>
     calls (main_publish env a) =
       [EPipeline, EValidate, EPublish (build_id a),
        EPrint (''Published pipeline: '' @ name), EPrint (''for build '' @ version)]"
  using assms
  by (auto simp: main_publish_def calls_bnd calls_simps snd_simps snd_bnd split: sum.splits)

text \<open>
  C8. In every complete run of \<open>main\<close> the operations occur in this order: authenticate
  (key vault, secrets, Azure AD context, REST client), resolve the compute target, resolve
  or create the instance pool, upload the notebook (\<open>workspace/mkdirs\<close>, then
  \<open>workspace/import\<close>), define the pipeline step with the uploaded notebook's path, and
  publish the pipeline. The calls of the run are exactly the ones listed, in this order;
  the compute target is resolved and not attached, since attaching never completes.
\<close>

theorem operations_in_order:
  assumes "snd (main env argv) = Inr u"
  shows "sorted (phases (main env argv)) \<and>
   set (phases (main env argv)) = {1, 2, 3, 4, 5, 6} \<and>
   (\<exists>a ws tenant r i content name version.
      parse_args (negative_number env) argv = Inr a \<and>
      snd (main_workspace env) = Inr ws \<and>
      snd (main_pool env) = Inr i \<and>
      r_secret env ''TenantId'' = Inr tenant \<and>
      map_of (compute_targets ws) ''databricks'' = Some (TObj DatabricksCompute r) \<and>
      r_open_read env (''code/prepare'' @ ''/'' @ ''feature_engineering'' @ ''.py'') = Inr content \<and>
      r_publish env = Inr (name, version) \<and>
      calls (main env argv) =
        [EParseArgs] @ calls (main_workspace env) @
        [EGetDefaultKeyvault, EGetSecret ''TenantId'',
         EAuthenticationContext (''https://login.microsoftonline.com/'' @ tenant),
         EGetSecret ''ClientId'', EGetSecret ''ClientSecret'',
         EClientCreate (''https://'' @ location ws @ ''.azuredatabricks.net/api/2.0''),
         EAuthAzureAD (databricks_workspace_name a)] @
        [ECall ''get_databricks_compute'', EPrint ''dbricks_compute:'', EPrint r] @
        calls (main_pool env) @
        [EDatastore ''workspaceblobstore'', EDatastore ''trainingdata'', EDataReference,
         EPipelineData ''feature_engineered''] @
        [ECall ''upload_notebook'',
         EOpenRead (''code/prepare'' @ ''/'' @ ''feature_engineering'' @ ''.py''),
         EPost ''workspace/mkdirs''
           (PDict [(''path'', PStr (''/Shared/AzureMLDeployed'' @ ''/'' @
                      sha1_hexdigest env (utf8_encode env content)))]),
         EPost ''workspace/import''
           (PDict [(''content'', PStr (b64encode env (utf8_encode env content))),
                   (''path'', PStr (''/Shared/AzureMLDeployed'' @ ''/'' @
                      sha1_hexdigest env (utf8_encode env content) @ ''/'' @
                      ''feature_engineering'')),
                   (''overwrite'', PBool True), (''language'', PStr ''PYTHON''),
                   (''format'', PStr ''SOURCE'')])] @
        [EDatabricksStep i
           (''/Shared/AzureMLDeployed'' @ ''/'' @
              sha1_hexdigest env (utf8_encode env content) @ ''/'' @ ''feature_engineering'')
           (TObj DatabricksCompute r)] @
        [EPipeline, EValidate, EPublish (build_id a),
         EPrint (''Published pipeline: '' @ name), EPrint (''for build '' @ version)] \<and>
      (calls (main_workspace env) =
         [ERunGetContext, EWorkspaceFromConfig, EPrint (ws_name ws)] \<or>
       calls (main_workspace env) =
         [ERunGetContext, EGetDefaultKeyvault, EGetSecret ''TenantId'', EGetSecret ''ClientId'',
          EGetSecret ''ClientSecret'', EServicePrincipalAuthentication, EWorkspace,
          EPrint (ws_name ws)]) \<and>
      (calls (main_pool env) = [ECall ''get_instance_pool'', EGet ''instance-pools/list''] \<or>
       calls (main_pool env) =
         [ECall ''get_instance_pool'', EGet ''instance-pools/list'',
          EPost ''instance-pools/create''
            (PDict [(''instance_pool_name'', PStr ''azureml_training''),
                    (''node_type_id'', PStr ''Standard_D3_v2''),
                    (''idle_instance_autotermination_minutes'', PInt 10),
                    (''preloaded_spark_versions'', PList [PStr ''6.2.x-scala2.11''])]),
          ECall ''get_instance_pool'', EGet ''instance-pools/list'']))"
proof -
  from main_complete [OF assms] obtain a ws t i p where
    pa: "parse_args (negative_number env) argv = Inr a"
    and w: "snd (main_workspace env) = Inr ws"
    and cl: "snd (main_client env a ws) = Inr ()"
    and co: "snd (main_compute env a ws) = Inr t"
    and po: "snd (main_pool env) = Inr i"
    and up: "snd (upload_notebook env ''/Shared/AzureMLDeployed'' ''code/prepare''
               ''feature_engineering'') = Inr p"
    and pu: "snd (main_publish env a) = Inr u"
    and c: "calls (main env argv) =
       [EParseArgs] @ calls (main_workspace env) @ calls (main_client env a ws) @
       calls (main_compute env a ws) @ calls (main_pool env) @
       [EDatastore ''workspaceblobstore'', EDatastore ''trainingdata'', EDataReference,
        EPipelineData ''feature_engineered''] @
       calls (upload_notebook env ''/Shared/AzureMLDeployed'' ''code/prepare'' ''feature_engineering'') @
       [EDatabricksStep i p t] @ calls (main_publish env a)"
    by blast
  have "phases (main env argv) =
          phases (main_workspace env) @ phases (main_client env a ws) @
          phases (main_compute env a ws) @ phases (main_pool env) @
          phases (upload_notebook env ''/Shared/AzureMLDeployed'' ''code/prepare''
                    ''feature_engineering'') @
          [5] @ phases (main_publish env a)"
    by (simp add: phases_def c)
  then have "set (phases (main env argv)) =
          set (phases (main_workspace env)) \<union> {1} \<union> {2} \<union> {3} \<union> {4} \<union> {5} \<union> {6}"
    by (auto simp: phases_client phases_compute phases_pool phases_upload phases_publish)
  with phases_workspace [of env]
  have s: "set (phases (main env argv)) = {1, 2, 3, 4, 5, 6}"
    by auto
  have o: "sorted (phases (main env argv))"
    using ordered_main by blast
  from main_client_calls [OF cl] obtain tenant where
    te: "r_secret env ''TenantId'' = Inr tenant"
    and clc: "calls (main_client env a ws) =
       [EGetDefaultKeyvault, EGetSecret ''TenantId'',
        EAuthenticationContext (''https://login.microsoftonline.com/'' @ tenant),
        EGetSecret ''ClientId'', EGetSecret ''ClientSecret'',
        EClientCreate (''https://'' @ location ws @ ''.azuredatabricks.net/api/2.0''),
        EAuthAzureAD (databricks_workspace_name a)]"
    by blast
  from main_compute_calls [OF co] obtain r where
    t: "t = TObj DatabricksCompute r"
    and ta: "map_of (compute_targets ws) ''databricks'' = Some (TObj DatabricksCompute r)"
    and coc: "calls (main_compute env a ws) =
       [ECall ''get_databricks_compute'', EPrint ''dbricks_compute:'', EPrint r]"
    by blast
  from upload_notebook_calls [OF up] obtain content where
    rd: "r_open_read env (''code/prepare'' @ ''/'' @ ''feature_engineering'' @ ''.py'') = Inr content"
    and p: "p = ''/Shared/AzureMLDeployed'' @ ''/'' @
              sha1_hexdigest env (utf8_encode env content) @ ''/'' @ ''feature_engineering''"
    and upc: "calls (upload_notebook env ''/Shared/AzureMLDeployed'' ''code/prepare''
                ''feature_engineering'') =
       [ECall ''upload_notebook'',
        EOpenRead (''code/prepare'' @ ''/'' @ ''feature_engineering'' @ ''.py''),
        EPost ''workspace/mkdirs''
          (PDict [(''path'', PStr (''/Shared/AzureMLDeployed'' @ ''/'' @
                     sha1_hexdigest env (utf8_encode env content)))]),
        EPost ''workspace/import''
          (PDict [(''content'', PStr (b64encode env (utf8_encode env content))),
                  (''path'', PStr p), (''overwrite'', PBool True),
                  (''language'', PStr ''PYTHON''), (''format'', PStr ''SOURCE'')])]"
    by blast
  from main_publish_calls [OF pu] obtain name version where
    rp: "r_publish env = Inr (name, version)"
    and puc: "calls (main_publish env a) =
       [EPipeline, EValidate, EPublish (build_id a),
        EPrint (''Published pipeline: '' @ name), EPrint (''for build '' @ version)]"
    by blast
  note wc = main_workspace_calls [OF w] and pc = main_pool_calls [OF po]
  have e: "calls (main env argv) =
        [EParseArgs] @ calls (main_workspace env) @
        [EGetDefaultKeyvault, EGetSecret ''TenantId'',
         EAuthenticationContext (''https://login.microsoftonline.com/'' @ tenant),
         EGetSecret ''ClientId'', EGetSecret ''ClientSecret'',
         EClientCreate (''https://'' @ location ws @ ''.azuredatabricks.net/api/2.0''),
         EAuthAzureAD (databricks_workspace_name a)] @
        [ECall ''get_databricks_compute'', EPrint ''dbricks_compute:'', EPrint r] @
        calls (main_pool env) @
        [EDatastore ''workspaceblobstore'', EDatastore ''trainingdata'', EDataReference,
         EPipelineData ''feature_engineered''] @
        [ECall ''upload_notebook'',
         EOpenRead (''code/prepare'' @ ''/'' @ ''feature_engineering'' @ ''.py''),
         EPost ''workspace/mkdirs''
           (PDict [(''path'', PStr (''/Shared/AzureMLDeployed'' @ ''/'' @
                      sha1_hexdigest env (utf8_encode env content)))]),
         EPost ''workspace/import''
           (PDict [(''content'', PStr (b64encode env (utf8_encode env content))),
                   (''path'', PStr (''/Shared/AzureMLDeployed'' @ ''/'' @
                      sha1_hexdigest env (utf8_encode env content) @ ''/'' @
                      ''feature_engineering'')),
                   (''overwrite'', PBool True), (''language'', PStr ''PYTHON''),
                   (''format'', PStr ''SOURCE'')])] @
        [EDatabricksStep i
           (''/Shared/AzureMLDeployed'' @ ''/'' @
              sha1_hexdigest env (utf8_encode env content) @ ''/'' @ ''feature_engineering'')
           (TObj DatabricksCompute r)] @
        [EPipeline, EValidate, EPublish (build_id a),
         EPrint (''Published pipeline: '' @ name), EPrint (''for build '' @ version)]"
    unfolding c clc coc upc puc t p by (rule refl)
  have "parse_args (negative_number env) argv = Inr a \<and>
      snd (main_workspace env) = Inr ws \<and>
      snd (main_pool env) = Inr i \<and>
      r_secret env ''TenantId'' = Inr tenant \<and>
      map_of (compute_targets ws) ''databricks'' = Some (TObj DatabricksCompute r) \<and>
      r_open_read env (''code/prepare'' @ ''/'' @ ''feature_engineering'' @ ''.py'') = Inr content \<and>
      r_publish env = Inr (name, version) \<and>
      calls (main env argv) =
        [EParseArgs] @ calls (main_workspace env) @
        [EGetDefaultKeyvault, EGetSecret ''TenantId'',
         EAuthenticationContext (''https://login.microsoftonline.com/'' @ tenant),
         EGetSecret ''ClientId'', EGetSecret ''ClientSecret'',
         EClientCreate (''https://'' @ location ws @ ''.azuredatabricks.net/api/2.0''),
         EAuthAzureAD (databricks_workspace_name a)] @
        [ECall ''get_databricks_compute'', EPrint ''dbricks_compute:'', EPrint r] @
        calls (main_pool env) @
        [EDatastore ''workspaceblobstore'', EDatastore ''trainingdata'', EDataReference,
         EPipelineData ''feature_engineered''] @
        [ECall ''upload_notebook'',
         EOpenRead (''code/prepare'' @ ''/'' @ ''feature_engineering'' @ ''.py''),
         EPost ''workspace/mkdirs''
           (PDict [(''path'', PStr (''/Shared/AzureMLDeployed'' @ ''/'' @
                      sha1_hexdigest env (utf8_encode env content)))]),
         EPost ''workspace/import''
           (PDict [(''content'', PStr (b64encode env (utf8_encode env content))),
                   (''path'', PStr (''/Shared/AzureMLDeployed'' @ ''/'' @
                      sha1_hexdigest env (utf8_encode env content) @ ''/'' @
                      ''feature_engineering'')),
                   (''overwrite'', PBool True), (''language'', PStr ''PYTHON''),
                   (''format'', PStr ''SOURCE'')])] @
        [EDatabricksStep i
           (''/Shared/AzureMLDeployed'' @ ''/'' @
              sha1_hexdigest env (utf8_encode env content) @ ''/'' @ ''feature_engineering'')
           (TObj DatabricksCompute r)] @
        [EPipeline, EValidate, EPublish (build_id a),
         EPrint (''Published pipeline: '' @ name), EPrint (''for build '' @ version)] \<and>
      (calls (main_workspace env) =
         [ERunGetContext, EWorkspaceFromConfig, EPrint (ws_name ws)] \<or>
       calls (main_workspace env) =
         [ERunGetContext, EGetDefaultKeyvault, EGetSecret ''TenantId'', EGetSecret ''ClientId'',
          EGetSecret ''ClientSecret'', EServicePrincipalAuthentication, EWorkspace,
          EPrint (ws_name ws)]) \<and>
      (calls (main_pool env) = [ECall ''get_instance_pool'', EGet ''instance-pools/list''] \<or>
       calls (main_pool env) =
         [ECall ''get_instance_pool'', EGet ''instance-pools/list'',
          EPost ''instance-pools/create''
            (PDict [(''instance_pool_name'', PStr ''azureml_training''),
                    (''node_type_id'', PStr ''Standard_D3_v2''),
                    (''idle_instance_autotermination_minutes'', PInt 10),
                    (''preloaded_spark_versions'', PList [PStr ''6.2.x-scala2.11''])]),
          ECall ''get_instance_pool'', EGet ''instance-pools/list''])"
    using pa w po te ta rd rp e wc pc by (intro conjI)
  then have "\<exists>a ws tenant r i content name version.
      parse_args (negative_number env) argv = Inr a \<and>
      snd (main_workspace env) = Inr ws \<and>
      snd (main_pool env) = Inr i \<and>
      r_secret env ''TenantId'' = Inr tenant \<and>
      map_of (compute_targets ws) ''databricks'' = Some (TObj DatabricksCompute r) \<and>
      r_open_read env (''code/prepare'' @ ''/'' @ ''feature_engineering'' @ ''.py'') = Inr content \<and>
      r_publish env = Inr (name, version) \<and>
      calls (main env argv) =
        [EParseArgs] @ calls (main_workspace env) @
        [EGetDefaultKeyvault, EGetSecret ''TenantId'',
         EAuthenticationContext (''https://login.microsoftonline.com/'' @ tenant),
         EGetSecret ''ClientId'', EGetSecret ''ClientSecret'',
         EClientCreate (''https://'' @ location ws @ ''.azuredatabricks.net/api/2.0''),
         EAuthAzureAD (databricks_workspace_name a)] @
        [ECall ''get_databricks_compute'', EPrint ''dbricks_compute:'', EPrint r] @
        calls (main_pool env) @
        [EDatastore ''workspaceblobstore'', EDatastore ''trainingdata'', EDataReference,
         EPipelineData ''feature_engineered''] @
        [ECall ''upload_notebook'',
         EOpenRead (''code/prepare'' @ ''/'' @ ''feature_engineering'' @ ''.py''),
         EPost ''workspace/mkdirs''
           (PDict [(''path'', PStr (''/Shared/AzureMLDeployed'' @ ''/'' @
                      sha1_hexdigest env (utf8_encode env content)))]),
         EPost ''workspace/import''
           (PDict [(''content'', PStr (b64encode env (utf8_encode env content))),
                   (''path'', PStr (''/Shared/AzureMLDeployed'' @ ''/'' @
                      sha1_hexdigest env (utf8_encode env content) @ ''/'' @
                      ''feature_engineering'')),
                   (''overwrite'', PBool True), (''language'', PStr ''PYTHON''),
                   (''format'', PStr ''SOURCE'')])] @
        [EDatabricksStep i
           (''/Shared/AzureMLDeployed'' @ ''/'' @
              sha1_hexdigest env (utf8_encode env content) @ ''/'' @ ''feature_engineering'')
           (TObj DatabricksCompute r)] @
        [EPipeline, EValidate, EPublish (build_id a),
         EPrint (''Published pipeline: '' @ name), EPrint (''for build '' @ version)] \<and>
      (calls (main_workspace env) =
         [ERunGetContext, EWorkspaceFromConfig, EPrint (ws_name ws)] \<or>
       calls (main_workspace env) =
         [ERunGetContext, EGetDefaultKeyvault, EGetSecret ''TenantId'', EGetSecret ''ClientId'',
          EGetSecret ''ClientSecret'', EServicePrincipalAuthentication, EWorkspace,
          EPrint (ws_name ws)]) \<and>
      (calls (main_pool env) = [ECall ''get_instance_pool'', EGet ''instance-pools/list''] \<or>
       calls (main_pool env) =
         [ECall ''get_instance_pool'', EGet ''instance-pools/list'',
          EPost ''instance-pools/create''
            (PDict [(''instance_pool_name'', PStr ''azureml_training''),
                    (''node_type_id'', PStr ''Standard_D3_v2''),
                    (''idle_instance_autotermination_minutes'', PInt 10),
                    (''preloaded_spark_versions'', PList [PStr ''6.2.x-scala2.11''])]),
          ECall ''get_instance_pool'', EGet ''instance-pools/list''])"
    by blast
  with o s show ?thesis by (intro conjI)
qed

theorem operations_in_order_witness:
  "snd (main env_ok argv0) = Inr () \<and>
   sorted (phases (main env_ok argv0)) \<and>
   set (phases (main env_ok argv0)) = {1, 2, 3, 4, 5, 6} \<and>
   (\<exists>a ws tenant r i content name version.
      parse_args (negative_number env_ok) argv0 = Inr a \<and>
      snd (main_workspace env_ok) = Inr ws \<and>
      snd (main_pool env_ok) = Inr i \<and>
      r_secret env_ok ''TenantId'' = Inr tenant \<and>
      map_of (compute_targets ws) ''databricks'' = Some (TObj DatabricksCompute r) \<and>
      r_open_read env_ok (''code/prepare'' @ ''/'' @ ''feature_engineering'' @ ''.py'') = Inr content \<and>
      r_publish env_ok = Inr (name, version) \<and>
      calls (main env_ok argv0) =
        [EParseArgs] @ calls (main_workspace env_ok) @
        [EGetDefaultKeyvault, EGetSecret ''TenantId'',
         EAuthenticationContext (''https://login.microsoftonline.com/'' @ tenant),
         EGetSecret ''ClientId'', EGetSecret ''ClientSecret'',
         EClientCreate (''https://'' @ location ws @ ''.azuredatabricks.net/api/2.0''),
         EAuthAzureAD (databricks_workspace_name a)] @
        [ECall ''get_databricks_compute'', EPrint ''dbricks_compute:'', EPrint r] @
        calls (main_pool env_ok) @
        [EDatastore ''workspaceblobstore'', EDatastore ''trainingdata'', EDataReference,
         EPipelineData ''feature_engineered''] @
        [ECall ''upload_notebook'',
         EOpenRead (''code/prepare'' @ ''/'' @ ''feature_engineering'' @ ''.py''),
         EPost ''workspace/mkdirs''
           (PDict [(''path'', PStr (''/Shared/AzureMLDeployed'' @ ''/'' @
                      sha1_hexdigest env_ok (utf8_encode env_ok content)))]),
         EPost ''workspace/import''
           (PDict [(''content'', PStr (b64encode env_ok (utf8_encode env_ok content))),
                   (''path'', PStr (''/Shared/AzureMLDeployed'' @ ''/'' @
                      sha1_hexdigest env_ok (utf8_encode env_ok content) @ ''/'' @
                      ''feature_engineering'')),
                   (''overwrite'', PBool True), (''language'', PStr ''PYTHON''),
                   (''format'', PStr ''SOURCE'')])] @
        [EDatabricksStep i
           (''/Shared/AzureMLDeployed'' @ ''/'' @
              sha1_hexdigest env_ok (utf8_encode env_ok content) @ ''/'' @ ''feature_engineering'')
           (TObj DatabricksCompute r)] @
        [EPipeline, EValidate, EPublish (build_id a),
         EPrint (''Published pipeline: '' @ name), EPrint (''for build '' @ version)] \<and>
      (calls (main_workspace env_ok) =
         [ERunGetContext, EWorkspaceFromConfig, EPrint (ws_name ws)] \<or>
       calls (main_workspace env_ok) =
         [ERunGetContext, EGetDefaultKeyvault, EGetSecret ''TenantId'', EGetSecret ''ClientId'',
          EGetSecret ''ClientSecret'', EServicePrincipalAuthentication, EWorkspace,
          EPrint (ws_name ws)]) \<and>
      (calls (main_pool env_ok) = [ECall ''get_instance_pool'', EGet ''instance-pools/list''] \<or>
       calls (main_pool env_ok) =
         [ECall ''get_instance_pool'', EGet ''instance-pools/list'',
          EPost ''instance-pools/create''
            (PDict [(''instance_pool_name'', PStr ''azureml_training''),
                    (''node_type_id'', PStr ''Standard_D3_v2''),
                    (''idle_instance_autotermination_minutes'', PInt 10),
                    (''preloaded_spark_versions'', PList [PStr ''6.2.x-scala2.11''])]),
          ECall ''get_instance_pool'', EGet ''instance-pools/list'']))"
  using run_ok operations_in_order [OF run_ok] by (rule conjI)

end
